(* ===== verification/Prelude.thy ===== *)
theory Prelude
  imports Main
begin

text \<open>
  Shared vocabulary of the development: the names of the model's basic types, a
  small model of the JavaScript values the component reads and renders (a
  property that may be absent, \<open>null\<close> or a string), list removal by index
  (an in-flight request leaving the queue), and the generic lemmas on lists and
  \<open>List.find\<close> that the component theories share.
\<close>

named_theorems handler_simps
  "unfolding equations of the component handlers, for evaluation on concrete states"

type_synonym url = string
type_synonym message = string

subsection \<open>JavaScript string-valued properties\<close>

text \<open>
  A property of a JavaScript object read by the component is either missing
  (\<open>undefined\<close>), \<open>null\<close>, or a string. Template literals print the first two as
  the words \<open>undefined\<close> and \<open>null\<close>; JSX text renders both as nothing; \<open>&&\<close>
  treats them and the empty string as false.
\<close>

datatype js_str = Undef | Null | Str string

fun js_template :: "js_str \<Rightarrow> string" where
  "js_template Undef = ''undefined''"
| "js_template Null = ''null''"
| "js_template (Str s) = s"

fun js_truthy :: "js_str \<Rightarrow> bool" where
  "js_truthy (Str s) = (s \<noteq> [])"
| "js_truthy _ = False"

fun jsx_text :: "js_str \<Rightarrow> string" where
  "jsx_text (Str s) = s"
| "jsx_text _ = []"

fun js_of_option :: "string option \<Rightarrow> js_str" where
  "js_of_option None = Null"
| "js_of_option (Some s) = Str s"

subsection \<open>Removing the \<open>i\<close>-th element of a list\<close>

definition drop_at :: "nat \<Rightarrow> 'a list \<Rightarrow> 'a list" where
  "drop_at i xs = take i xs @ drop (Suc i) xs"

lemma drop_at_0 [simp]: "drop_at 0 (x # xs) = xs"
  by (simp add: drop_at_def)

lemma drop_at_Suc [simp]: "drop_at (Suc i) (x # xs) = x # drop_at i xs"
  by (simp add: drop_at_def)

lemma drop_at_numeral [simp]:
  "drop_at (numeral n) (x # xs) = x # drop_at (pred_numeral n) xs"
  by (simp add: numeral_eq_Suc)

lemma length_drop_at [simp]: "i < length xs \<Longrightarrow> length (drop_at i xs) = length xs - 1"
  by (simp add: drop_at_def)

lemma drop_at_append_last [simp]: "drop_at (length xs) (xs @ [x]) = xs"
  by (simp add: drop_at_def)

lemma set_drop_at_subset: "set (drop_at i xs) \<subseteq> set xs"
  by (auto simp: drop_at_def dest: in_set_takeD in_set_dropD)

lemma length_filter_drop_at: "length (filter P (drop_at i xs)) \<le> length (filter P xs)"
proof (induction xs arbitrary: i)
  case Nil
  then show ?case by (simp add: drop_at_def)
next
  case (Cons x xs)
  then show ?case by (cases i) (simp_all add: le_SucI)
qed

lemma filter_drop_at:
  assumes "i < length xs" and "\<not> P (xs ! i)"
  shows "filter P (drop_at i xs) = filter P xs"
proof -
  have "xs = take i xs @ xs ! i # drop (Suc i) xs"
    using assms(1) by (rule id_take_nth_drop)
  then have "filter P xs = filter P (take i xs) @ filter P (drop (Suc i) xs)"
    using assms(2) by (metis filter.simps(2) filter_append)
  then show ?thesis by (simp add: drop_at_def)
qed

lemma nth_in_drop_at:
  assumes "j < length xs" and "j \<noteq> i"
  shows "xs ! j \<in> set (drop_at i xs)"
proof (cases "j < i")
  case True
  with assms(1) show ?thesis by (auto simp: drop_at_def in_set_conv_nth)
next
  case False
  with assms have j: "j - Suc i < length (drop (Suc i) xs)"
    and eq: "drop (Suc i) xs ! (j - Suc i) = xs ! j" by auto
  from nth_mem [OF j] have "xs ! j \<in> set (drop (Suc i) xs)" by (simp only: eq)
  then show ?thesis by (simp add: drop_at_def)
qed

subsection \<open>First match of a predicate\<close>

text \<open>
  \<open>List.find\<close> returns the first element satisfying the predicate, the order of
  the list deciding ties; as a decomposition of the list:
\<close>

lemma find_Some_decomp:
  "List.find P xs = Some x \<longleftrightarrow> (\<exists>ys zs. xs = ys @ x # zs \<and> P x \<and> (\<forall>y\<in>set ys. \<not> P y))"
proof (induction xs)
  case Nil
  then show ?case by simp
next
  case (Cons a xs)
  show ?case
  proof (cases "P a")
    case True
    then show ?thesis by (auto simp: Cons_eq_append_conv)
  next
    case False
    with Cons.IH show ?thesis
      by (auto simp: Cons_eq_append_conv) (metis set_ConsD)+
  qed
qed

end
