(* ===== verification/Api.thy ===== *)
theory Api
  imports Prelude
begin

text \<open>
  The interface between the component and its collaborators
  (src/screen-gem/src/App.jsx, lines 11--14 and the \<open>axios.get\<close> calls): the
  records the movie database returns, the three HTTP requests the component
  issues, the outcome of an \<open>axios.get\<close> as a value (a resolved response or a
  rejection, with or without an \<open>error.response\<close>), and the classification of a
  rejection into one of three user-visible messages that all three list-fetching
  \<open>catch\<close> blocks share.
\<close>

subsection \<open>Data returned by the movie database\<close>

text \<open>
  The fields the component reads of a movie (\<open>movie.id\<close>, \<open>title\<close>,
  \<open>poster_path\<close>, \<open>release_date\<close>, \<open>overview\<close>; the poster path may be
  \<open>null\<close>) and of a video (\<open>type\<close>, \<open>site\<close>, \<open>key\<close>).
\<close>

record movie =
  movie_id :: int
  title :: string
  poster_path :: "string option"
  release_date :: string
  overview :: string

record video =
  video_type :: string
  site :: string
  key :: string

subsection \<open>Requests\<close>

datatype param = PStr string | PNum int

record request =
  req_url :: url
  req_params :: "(string \<times> param) list"

definition apiKey :: string where
  "apiKey = ''c1d9c062859ee2693fafa991d613045a''"

definition apiUrl :: url where
  "apiUrl = ''https://api.themoviedb.org/3/movie/popular''"

definition searchUrl :: url where
  "searchUrl = ''https://api.themoviedb.org/3/search/movie''"

definition youtubeUrl :: url where
  "youtubeUrl = ''https://www.youtube.com/watch?v=''"

text \<open>
  The videos endpoint is written in the source between single quotes, so
  \<open>${movie.id}\<close> is not interpolated: the request target is this literal text.
\<close>

definition videosUrl :: url where
  "videosUrl = ''https://api.themoviedb.org/3/movie/${movie.id}/videos''"

definition popular_request :: request where
  "popular_request =
     \<lparr>req_url = apiUrl,
      req_params = [(''api_key'', PStr apiKey), (''language'', PStr ''en-US''), (''page'', PNum 1)]\<rparr>"

definition search_request :: "string \<Rightarrow> request" where
  "search_request query =
     \<lparr>req_url = searchUrl,
      req_params = [(''api_key'', PStr apiKey), (''query'', PStr query),
                    (''language'', PStr ''en-US''), (''page'', PNum 1)]\<rparr>"

definition videos_request :: "movie \<Rightarrow> request" where
  "videos_request m =
     \<lparr>req_url = videosUrl,
      req_params = [(''api_key'', PStr apiKey), (''language'', PStr ''en-US'')]\<rparr>"

subsection \<open>Outcomes of a request\<close>

text \<open>
  \<open>axios.get\<close> either resolves with a response (its \<open>status\<close> and
  \<open>data.results\<close>, \<open>None\<close> when the field is absent or \<open>null\<close>) or rejects with
  an error whose \<open>response\<close> is absent (\<open>None\<close>) or carries a status.
\<close>

datatype 'a axios_result =
    Resolved int "'a list option"
  | Rejected "int option"

text \<open>
  The guard \<open>response.status === 200 && response.data.results\<close>: an array is
  truthy in JavaScript even when it is empty, so only a missing field fails it.
\<close>

definition ok_results :: "int \<Rightarrow> 'a list option \<Rightarrow> 'a list option" where
  "ok_results status results = (if status = 200 then results else None)"

subsection \<open>Error messages\<close>

definition msg_no_movies :: message where
  "msg_no_movies = ''No movies found.''"

definition msg_network :: message where
  "msg_network = ''Network error: Please check your connection.''"

definition msg_server :: message where
  "msg_server = ''Server error: Please try again later.''"

definition msg_unexpected :: message where
  "msg_unexpected = ''An unexpected error occurred.''"

text \<open>The \<open>catch\<close> block shared by the three list fetches.\<close>

fun classify_error :: "int option \<Rightarrow> message" where
  "classify_error None = msg_network"
| "classify_error (Some status) = (if 500 \<le> status then msg_server else msg_unexpected)"

definition known_message :: "message \<Rightarrow> bool" where
  "known_message m \<longleftrightarrow> m \<in> {[], msg_no_movies, msg_network, msg_server, msg_unexpected}"

lemmas message_defs = msg_no_movies_def msg_network_def msg_server_def msg_unexpected_def

lemma ok_results_Some [simp]: "ok_results status r = Some xs \<longleftrightarrow> status = 200 \<and> r = Some xs"
  by (simp add: ok_results_def)

lemma ok_results_200 [simp]: "ok_results 200 r = r"
  by (simp add: ok_results_def)

lemma ok_results_None [simp]: "ok_results status r = None \<longleftrightarrow> status \<noteq> 200 \<or> r = None"
  by (simp add: ok_results_def)

lemma known_message_classify [simp]: "known_message (classify_error e)"
  by (cases e) (simp_all add: known_message_def)

lemma known_message_simps [simp]:
  "known_message []" "known_message msg_no_movies"
  by (simp_all add: known_message_def)

lemma messages_distinct [simp]:
  "msg_network \<noteq> msg_server" "msg_network \<noteq> msg_unexpected" "msg_server \<noteq> msg_unexpected"
  "msg_no_movies \<noteq> msg_network" "msg_no_movies \<noteq> msg_server" "msg_no_movies \<noteq> msg_unexpected"
  "msg_no_movies \<noteq> []" "msg_network \<noteq> []" "msg_server \<noteq> []" "msg_unexpected \<noteq> []"
  by (simp_all add: message_defs)

lemmas messages_distinct_sym [simp] = messages_distinct [symmetric]

text \<open>
  Every rejection of a list request is reported by exactly one of three
  messages: the network message exactly when the error carries no response,
  the server message exactly when the response status is at least 500.
\<close>

theorem classify_error_buckets:
  "classify_error e \<in> {msg_network, msg_server, msg_unexpected} \<and>
   (classify_error e = msg_network \<longleftrightarrow> e = None) \<and>
   (classify_error e = msg_server \<longleftrightarrow> (\<exists>status. e = Some status \<and> 500 \<le> status)) \<and>
   (classify_error e = msg_unexpected \<longleftrightarrow> (\<exists>status. e = Some status \<and> status < 500))"
  by (cases e) auto

text \<open>
  C15: the trailer lookup sends the same request whatever movie was clicked: the
  target is the literal text \<open>.../movie/${movie.id}/videos\<close>, with no movie
  identifier in it (specification, section 4.3: ``movie identifier interpolated
  into the request target'').
\<close>

theorem videos_request_ignores_movie:
  "videos_request m = videos_request m' \<and>
   req_url (videos_request m) = ''https://api.themoviedb.org/3/movie/${movie.id}/videos''"
  by (simp add: videos_request_def videosUrl_def)

end
