(* ===== verification/AppState.thy ===== *)
theory AppState
  imports Api
begin

text \<open>
  The state the component keeps with \<open>useState\<close> (App.jsx, lines 5--9) and the
  requests it has issued and not yet seen settle. An asynchronous handler runs
  in two parts: the code before its \<open>await\<close>, which changes the state and adds
  the request to \<open>inflight\<close>, and the continuation after it, which runs when
  the environment delivers the outcome (EventLoop.thy). \<open>inflight\<close> is no state
  of the source: it is the set of suspended continuations that the JavaScript
  runtime holds, each tagged with the handler it belongs to.
\<close>

text \<open>
  The selected movie is a JavaScript object: the movie the user clicked, to which
  the trailer lookup adds a \<open>trailerUrl\<close> property by
  \<open>{...prevState, trailerUrl}\<close>. When \<open>prevState\<close> is \<open>null\<close> the spread copies
  no movie fields, so \<open>sel_movie\<close> is an option.
\<close>

record selection =
  sel_movie :: "movie option"
  trailerUrl :: js_str

datatype pending =
    PopularLoad        \<comment> \<open>\<open>fetchMovies\<close> of the mount effect\<close>
  | PopularReload      \<comment> \<open>\<open>handleSearchChange\<close> with an empty query\<close>
  | SearchLoad string  \<comment> \<open>\<open>handleSearchChange\<close> with a non-empty query\<close>
  | VideosLoad         \<comment> \<open>\<open>handleMovieClick\<close>\<close>

fun is_list_load :: "pending \<Rightarrow> bool" where
  "is_list_load VideosLoad = False"
| "is_list_load _ = True"

record app_state =
  movies :: "movie list"
  selectedMovie :: "selection option"
  searchQuery :: string
  errorMessage :: message
  loading :: bool
  inflight :: "(pending \<times> request) list"

definition app_init :: app_state where
  "app_init =
     \<lparr>movies = [], selectedMovie = None, searchQuery = [], errorMessage = [],
      loading = False, inflight = []\<rparr>"

text \<open>\<open>await axios.get(...)\<close>: the request leaves and the handler is suspended.\<close>

definition issue :: "pending \<Rightarrow> request \<Rightarrow> app_state \<Rightarrow> app_state" where
  "issue k rq st = st\<lparr>inflight := inflight st @ [(k, rq)]\<rparr>"

definition list_loads :: "app_state \<Rightarrow> (pending \<times> request) list" where
  "list_loads st = filter (is_list_load \<circ> fst) (inflight st)"

lemma issue_fields [simp]:
  "movies (issue k rq st) = movies st"
  "selectedMovie (issue k rq st) = selectedMovie st"
  "searchQuery (issue k rq st) = searchQuery st"
  "errorMessage (issue k rq st) = errorMessage st"
  "loading (issue k rq st) = loading st"
  "inflight (issue k rq st) = inflight st @ [(k, rq)]"
  by (simp_all add: issue_def)

end
