(* ===== verification/FetchContract.thy ===== *)
theory FetchContract
  imports AppState
begin

text \<open>
  The abstract contract of a list fetch, from the specification (sections 4.1,
  4.2 and 7): a successful response with a non-empty result list replaces the
  displayed list and clears the error; a response without results, or with an
  empty list, shows ``No movies found.''; a failure shows the message of its
  class. Whatever the outcome, the loading flag is cleared on settlement. The
  handlers of CatalogLoader.thy and SearchController.thy are compared with it.
\<close>

datatype fetch_effect = Replace "movie list" | ShowError message | Keep

definition list_fetch_spec :: "movie axios_result \<Rightarrow> fetch_effect" where
  "list_fetch_spec res =
     (case res of
        Resolved status results \<Rightarrow>
          (case ok_results status results of
             Some ms \<Rightarrow> if ms = [] then ShowError msg_no_movies else Replace ms
           | None \<Rightarrow> ShowError msg_no_movies)
      | Rejected resp \<Rightarrow> ShowError (classify_error resp))"

fun apply_effect :: "fetch_effect \<Rightarrow> app_state \<Rightarrow> app_state" where
  "apply_effect (Replace ms) st = st\<lparr>movies := ms, errorMessage := [], loading := False\<rparr>"
| "apply_effect (ShowError m) st = st\<lparr>errorMessage := m, loading := False\<rparr>"
| "apply_effect Keep st = st\<lparr>loading := False\<rparr>"

end
