(* ===== verification/CatalogLoader.thy ===== *)
theory CatalogLoader
  imports FetchContract
begin

text \<open>
  The Catalog Loader: \<open>fetchMovies\<close>, run once by the mount effect
  (App.jsx, lines 16--48). Its part before the \<open>await\<close> raises the loading
  flag and issues the popular-list request; its continuation handles the
  outcome and, in \<open>finally\<close>, clears the flag.
\<close>

definition fetchMovies_start :: "app_state \<Rightarrow> app_state" where
  "fetchMovies_start st = issue PopularLoad popular_request (st\<lparr>loading := True\<rparr>)"

definition fetchMovies_settle :: "movie axios_result \<Rightarrow> app_state \<Rightarrow> app_state" where
  "fetchMovies_settle res st =
     (case res of
        Resolved status results \<Rightarrow>
          (case ok_results status results of
             Some ms \<Rightarrow> st\<lparr>movies := ms, errorMessage := []\<rparr>
           | None \<Rightarrow> st\<lparr>errorMessage := msg_no_movies\<rparr>)
      | Rejected resp \<Rightarrow> st\<lparr>errorMessage := classify_error resp\<rparr>)\<lparr>loading := False\<rparr>"

declare fetchMovies_start_def [handler_simps] fetchMovies_settle_def [handler_simps]

lemmas fetchMovies_settle_splits = axios_result.splits option.splits

subsection \<open>Behaviour on each branch\<close>

lemma fetchMovies_settle_success:
  "fetchMovies_settle (Resolved 200 (Some ms)) st =
     st\<lparr>movies := ms, errorMessage := [], loading := False\<rparr>"
  by (simp add: fetchMovies_settle_def)

text \<open>
  C7: when the response is not a 200 carrying a results field, the Catalog
  Loader shows ``No movies found.'', leaves the displayed list as it was and
  clears the loading flag.
\<close>

lemma fetchMovies_settle_no_results:
  assumes "ok_results status results = None"
  shows "fetchMovies_settle (Resolved status results) st =
           st\<lparr>errorMessage := msg_no_movies, loading := False\<rparr>"
  by (simp add: fetchMovies_settle_def assms)

lemma fetchMovies_settle_no_results_witness:
  "ok_results 404 (None :: movie list option) = None \<and>
   fetchMovies_settle (Resolved 404 None) app_init =
     app_init\<lparr>errorMessage := msg_no_movies, loading := False\<rparr>"
  using fetchMovies_settle_no_results [of 404 None app_init] by (simp add: ok_results_def)

text \<open>
  C8: a rejected request leaves the list alone and shows the message of its
  class: the network message exactly when the error carries no response.
\<close>

lemma fetchMovies_settle_rejected:
  "fetchMovies_settle (Rejected resp) st = st\<lparr>errorMessage := classify_error resp, loading := False\<rparr>
   \<and> (classify_error resp = msg_network \<longleftrightarrow> resp = None)"
  by (cases resp) (simp_all add: fetchMovies_settle_def)

lemma fetchMovies_settle_frame [simp]:
  "selectedMovie (fetchMovies_settle res st) = selectedMovie st"
  "searchQuery (fetchMovies_settle res st) = searchQuery st"
  "inflight (fetchMovies_settle res st) = inflight st"
  "loading (fetchMovies_settle res st) = False"
  by (simp_all add: fetchMovies_settle_def split: fetchMovies_settle_splits)

lemma fetchMovies_settle_known [simp]:
  "known_message (errorMessage (fetchMovies_settle res st))"
  by (simp add: fetchMovies_settle_def split: fetchMovies_settle_splits)

subsection \<open>Refinement of the fetch contract\<close>

text \<open>
  C3: on every outcome but one, the continuation of \<open>fetchMovies\<close> has exactly
  the effect the contract prescribes. The exception is a 200 response with an
  empty array, which the guard lets through (an empty array is truthy).
\<close>

theorem fetchMovies_settle_refines:
  assumes "res \<noteq> Resolved 200 (Some [])"
  shows "fetchMovies_settle res st = apply_effect (list_fetch_spec res) st"
  using assms
  by (auto simp: fetchMovies_settle_def list_fetch_spec_def ok_results_def
           split: fetchMovies_settle_splits)

lemma fetchMovies_settle_refines_witness:
  "Resolved 500 None \<noteq> (Resolved 200 (Some []) :: movie axios_result) \<and>
   fetchMovies_settle (Resolved 500 None) app_init =
     apply_effect (list_fetch_spec (Resolved 500 None)) app_init"
  using fetchMovies_settle_refines [of "Resolved 500 None" app_init] by simp

text \<open>
  C17: on a 200 response with an empty array the Catalog Loader empties the
  list and clears the error, where the specification (section 4.1) asks for
  ``No movies found.''.
\<close>

theorem fetchMovies_settle_empty_clears:
  "errorMessage (fetchMovies_settle (Resolved 200 (Some [])) st) = [] \<and>
   movies (fetchMovies_settle (Resolved 200 (Some [])) st) = [] \<and>
   errorMessage (apply_effect (list_fetch_spec (Resolved 200 (Some []))) st) = msg_no_movies"
  by (simp add: fetchMovies_settle_def list_fetch_spec_def)

end
