(* ===== verification/SearchController.thy ===== *)
theory SearchController
  imports CatalogLoader
begin

text \<open>
  The Search Controller: \<open>handleSearchChange\<close> (App.jsx, lines 49--114), run on
  every change of the input. It stores the query, raises the loading flag and
  issues either the popular-list request (empty query, lines 53--80) or the
  search request (lines 82--113). The two continuations differ from each other
  and from the Catalog Loader's: the empty-query branch has no \<open>else\<close> for a
  response without results, and the search branch treats an empty array as
  ``No movies found.''.
\<close>

definition handleSearchChange :: "string \<Rightarrow> app_state \<Rightarrow> app_state" where
  "handleSearchChange query st =
     (let st' = st\<lparr>searchQuery := query\<rparr>
      in if query = [] then issue PopularReload popular_request (st'\<lparr>loading := True\<rparr>)
         else issue (SearchLoad query) (search_request query) (st'\<lparr>loading := True\<rparr>))"

definition reload_settle :: "movie axios_result \<Rightarrow> app_state \<Rightarrow> app_state" where
  "reload_settle res st =
     (case res of
        Resolved status results \<Rightarrow>
          (case ok_results status results of
             Some ms \<Rightarrow> st\<lparr>movies := ms, errorMessage := []\<rparr>
           | None \<Rightarrow> st)
      | Rejected resp \<Rightarrow> st\<lparr>errorMessage := classify_error resp\<rparr>)\<lparr>loading := False\<rparr>"

definition search_settle :: "movie axios_result \<Rightarrow> app_state \<Rightarrow> app_state" where
  "search_settle res st =
     (case res of
        Resolved status results \<Rightarrow>
          (case ok_results status results of
             Some ms \<Rightarrow>
               if length ms = 0 then st\<lparr>errorMessage := msg_no_movies\<rparr>
               else st\<lparr>movies := ms, errorMessage := []\<rparr>
           | None \<Rightarrow> st\<lparr>errorMessage := msg_no_movies\<rparr>)
      | Rejected resp \<Rightarrow> st\<lparr>errorMessage := classify_error resp\<rparr>)\<lparr>loading := False\<rparr>"

declare handleSearchChange_def [handler_simps] reload_settle_def [handler_simps]
  search_settle_def [handler_simps]

lemmas settle_splits = axios_result.splits option.splits if_splits

subsection \<open>The handler before its \<open>await\<close>\<close>

text \<open>
  A non-empty query is stored, raises the loading flag and sends one
  request, to the search endpoint, carrying the query; nothing else changes.
\<close>

theorem handleSearchChange_search_request:
  assumes "query \<noteq> []"
  shows "handleSearchChange query st =
           st\<lparr>searchQuery := query, loading := True,
              inflight := inflight st @ [(SearchLoad query, search_request query)]\<rparr>
         \<and> (''query'', PStr query) \<in> set (req_params (search_request query))
         \<and> req_url (search_request query) = searchUrl"
  using assms by (simp add: handleSearchChange_def issue_def search_request_def)

lemma handleSearchChange_search_request_witness:
  "''batman'' \<noteq> [] \<and>
   handleSearchChange ''batman'' app_init =
     app_init\<lparr>searchQuery := ''batman'', loading := True,
       inflight := [(SearchLoad ''batman'', search_request ''batman'')]\<rparr>
   \<and> (''query'', PStr ''batman'') \<in> set (req_params (search_request ''batman''))
   \<and> req_url (search_request ''batman'') = searchUrl"
  using handleSearchChange_search_request [of "''batman''" app_init]
  by (simp add: app_init_def)

text \<open>
  Clearing the query re-issues the same popular-list request as the
  Catalog Loader, with the same parameters.
\<close>

theorem handleSearchChange_empty:
  "handleSearchChange [] st =
     (fetchMovies_start st)\<lparr>searchQuery := [],
        inflight := inflight st @ [(PopularReload, popular_request)]\<rparr>"
  by (simp add: handleSearchChange_def fetchMovies_start_def issue_def)

subsection \<open>The search continuation\<close>

text \<open>
  A 200 response with a non-empty result array is shown verbatim, in the
  server's order, the error is cleared and the loading flag is down.
\<close>

theorem search_settle_nonempty:
  "search_settle (Resolved 200 (Some (m # ms))) st =
     st\<lparr>movies := m # ms, errorMessage := [], loading := False\<rparr>"
  by (simp add: search_settle_def)

text \<open>
  C6: a search answered by an empty array, by a response without results or by
  a non-200 status shows ``No movies found.'' and leaves the previous list on
  screen.
\<close>

theorem search_settle_empty:
  assumes "ok_results status results = None \<or> ok_results status results = Some []"
  shows "search_settle (Resolved status results) st =
           st\<lparr>errorMessage := msg_no_movies, loading := False\<rparr>"
  using assms by (auto simp: search_settle_def ok_results_def)

lemma search_settle_empty_witness:
  "(ok_results 200 (Some ([] :: movie list)) = None \<or> ok_results 200 (Some ([] :: movie list)) = Some []) \<and>
   search_settle (Resolved 200 (Some [])) app_init =
     app_init\<lparr>errorMessage := msg_no_movies, loading := False\<rparr>"
  using search_settle_empty [of 200 "Some []" app_init] by simp

text \<open>
  C4: the search continuation implements the fetch contract on every outcome.
\<close>

theorem search_settle_refines:
  "search_settle res st = apply_effect (list_fetch_spec res) st"
  by (auto simp: search_settle_def list_fetch_spec_def split: settle_splits)

subsection \<open>The empty-query continuation\<close>

text \<open>
  C16: when the popular list is re-fetched after the query is cleared and the
  response is not a 200 with results, nothing is shown: the error message and
  the list stay as they were and only the loading flag drops. The Catalog Loader
  and the specification (section 4.2: ``behaves identically to Catalog Loader'')
  show ``No movies found.'' here.
\<close>

theorem reload_settle_not_ok_keeps:
  assumes "ok_results status results = None"
  shows "reload_settle (Resolved status results) st = st\<lparr>loading := False\<rparr>
         \<and> errorMessage (fetchMovies_settle (Resolved status results) st) = msg_no_movies"
  by (simp add: reload_settle_def fetchMovies_settle_def assms)

lemma reload_settle_not_ok_keeps_witness:
  "ok_results 204 (None :: movie list option) = None \<and>
   reload_settle (Resolved 204 None) app_init = app_init\<lparr>loading := False\<rparr> \<and>
   errorMessage (fetchMovies_settle (Resolved 204 None) app_init) = msg_no_movies"
  using reload_settle_not_ok_keeps [of 204 None app_init] by (simp add: ok_results_def)

lemma search_frame [simp]:
  "selectedMovie (reload_settle res st) = selectedMovie st"
  "searchQuery (reload_settle res st) = searchQuery st"
  "inflight (reload_settle res st) = inflight st"
  "loading (reload_settle res st) = False"
  "selectedMovie (search_settle res st) = selectedMovie st"
  "searchQuery (search_settle res st) = searchQuery st"
  "inflight (search_settle res st) = inflight st"
  "loading (search_settle res st) = False"
  by (simp_all add: reload_settle_def search_settle_def split: settle_splits)

lemma search_known_messages:
  "known_message (errorMessage st) \<Longrightarrow> known_message (errorMessage (reload_settle res st))"
  "known_message (errorMessage (search_settle res st))"
  by (simp_all add: reload_settle_def search_settle_def split: settle_splits)

lemma handleSearchChange_fields [simp]:
  "movies (handleSearchChange q st) = movies st"
  "selectedMovie (handleSearchChange q st) = selectedMovie st"
  "errorMessage (handleSearchChange q st) = errorMessage st"
  "loading (handleSearchChange q st) = True"
  "searchQuery (handleSearchChange q st) = q"
  by (simp_all add: handleSearchChange_def Let_def)

lemma handleSearchChange_inflight:
  "inflight (handleSearchChange q st) =
     inflight st @ [(if q = [] then PopularReload else SearchLoad q,
                     if q = [] then popular_request else search_request q)]"
  by (simp add: handleSearchChange_def Let_def)

end
