(* ===== verification/DetailResolver.thy ===== *)
theory DetailResolver
  imports AppState
begin

text \<open>
  The Detail Resolver: \<open>handleMovieClick\<close> (App.jsx, lines 116--153) and the
  Close button of the detail dialog (line 215). A click selects the movie at
  once and issues the videos request; the continuation looks for the first
  YouTube trailer (\<open>results.find\<close>) and writes \<open>trailerUrl\<close> into whatever is
  selected at that moment, through the functional update
  \<open>setSelectedMovie(prevState => ({...prevState, trailerUrl}))\<close>. A rejected
  lookup is only logged. The Detail Resolver never touches the list, the error
  message or the loading flag.
\<close>

definition is_trailer :: "video \<Rightarrow> bool" where
  "is_trailer v \<longleftrightarrow> video_type v = ''Trailer'' \<and> site v = ''YouTube''"

text \<open>\<open>Array.prototype.find\<close> with the callback of line 131.\<close>

fun find_trailer :: "video list \<Rightarrow> video option" where
  "find_trailer [] = None"
| "find_trailer (v # vs) = (if is_trailer v then Some v else find_trailer vs)"

text \<open>\<open>setSelectedMovie(prevState => ({...prevState, trailerUrl: u}))\<close>\<close>

definition set_trailer :: "js_str \<Rightarrow> selection option \<Rightarrow> selection option" where
  "set_trailer u prev =
     Some (case prev of
             None \<Rightarrow> \<lparr>sel_movie = None, trailerUrl = u\<rparr>
           | Some s \<Rightarrow> s\<lparr>trailerUrl := u\<rparr>)"

definition handleMovieClick :: "movie \<Rightarrow> app_state \<Rightarrow> app_state" where
  "handleMovieClick m st =
     issue VideosLoad (videos_request m)
       (st\<lparr>selectedMovie := Some \<lparr>sel_movie = Some m, trailerUrl = Undef\<rparr>\<rparr>)"

definition trailer_of :: "int \<Rightarrow> video list option \<Rightarrow> js_str" where
  "trailer_of status results =
     (case ok_results status results of
        Some vs \<Rightarrow>
          (case find_trailer vs of
             Some t \<Rightarrow> Str (youtubeUrl @ key t)
           | None \<Rightarrow> Null)
      | None \<Rightarrow> Null)"

definition videos_settle :: "video axios_result \<Rightarrow> app_state \<Rightarrow> app_state" where
  "videos_settle res st =
     (case res of
        Resolved status results \<Rightarrow>
          st\<lparr>selectedMovie := set_trailer (trailer_of status results) (selectedMovie st)\<rparr>
      | Rejected _ \<Rightarrow> st)"

definition closeModal :: "app_state \<Rightarrow> app_state" where
  "closeModal st = st\<lparr>selectedMovie := None\<rparr>"

declare handleMovieClick_def [handler_simps] videos_settle_def [handler_simps]
  closeModal_def [handler_simps]

subsection \<open>The trailer search\<close>

lemma find_trailer_eq_find: "find_trailer vs = List.find is_trailer vs"
  by (induction vs) simp_all

text \<open>
  C10: the trailer found is the first video of the response, in the server's
  order, whose type is ``Trailer'' and whose site is ``YouTube''.
\<close>

theorem find_trailer_first:
  "find_trailer vs = Some v \<longleftrightarrow>
     (\<exists>ys zs. vs = ys @ v # zs \<and> video_type v = ''Trailer'' \<and> site v = ''YouTube'' \<and>
        (\<forall>y\<in>set ys. \<not> (video_type y = ''Trailer'' \<and> site y = ''YouTube'')))"
  by (simp add: find_trailer_eq_find find_Some_decomp is_trailer_def)

lemma find_trailer_first_witness:
  "find_trailer [\<lparr>video_type = ''Teaser'', site = ''YouTube'', key = ''t''\<rparr>,
                 \<lparr>video_type = ''Trailer'', site = ''YouTube'', key = ''k''\<rparr>] =
     Some \<lparr>video_type = ''Trailer'', site = ''YouTube'', key = ''k''\<rparr> \<and>
   (\<exists>ys zs. [\<lparr>video_type = ''Teaser'', site = ''YouTube'', key = ''t''\<rparr>,
               \<lparr>video_type = ''Trailer'', site = ''YouTube'', key = ''k''\<rparr>] =
              ys @ \<lparr>video_type = ''Trailer'', site = ''YouTube'', key = ''k''\<rparr> # zs
            \<and> video_type \<lparr>video_type = ''Trailer'', site = ''YouTube'', key = ''k''\<rparr> = ''Trailer''
            \<and> site \<lparr>video_type = ''Trailer'', site = ''YouTube'', key = ''k''\<rparr> = ''YouTube'')"
proof -
  have h: "find_trailer [\<lparr>video_type = ''Teaser'', site = ''YouTube'', key = ''t''\<rparr>,
                 \<lparr>video_type = ''Trailer'', site = ''YouTube'', key = ''k''\<rparr>] =
     Some \<lparr>video_type = ''Trailer'', site = ''YouTube'', key = ''k''\<rparr>"
    by (simp add: is_trailer_def)
  show ?thesis using h find_trailer_first [THEN iffD1, OF h] by blast
qed

lemma find_trailer_None: "find_trailer vs = None \<longleftrightarrow> (\<forall>v\<in>set vs. \<not> is_trailer v)"
  by (induction vs) simp_all

subsection \<open>The continuation\<close>

text \<open>
  C11: when the lookup answers 200 with a list whose first YouTube trailer has
  key \<open>k\<close>, the selected movie gets the trailer URL \<open>youtubeUrl @ k\<close>, its
  other fields unchanged.
\<close>

theorem videos_settle_found:
  assumes "find_trailer vs = Some t"
  shows "selectedMovie (videos_settle (Resolved 200 (Some vs)) st) =
           Some (case selectedMovie st of
                   None \<Rightarrow> \<lparr>sel_movie = None, trailerUrl = Str (youtubeUrl @ key t)\<rparr>
                 | Some s \<Rightarrow> s\<lparr>trailerUrl := Str (youtubeUrl @ key t)\<rparr>)"
proof -
  have "trailer_of 200 (Some vs) = Str (youtubeUrl @ key t)"
    by (simp add: trailer_of_def assms)
  then show ?thesis by (simp add: videos_settle_def set_trailer_def split: option.splits)
qed

lemma videos_settle_found_witness:
  "find_trailer [\<lparr>video_type = ''Trailer'', site = ''YouTube'', key = ''abc123''\<rparr>] =
     Some \<lparr>video_type = ''Trailer'', site = ''YouTube'', key = ''abc123''\<rparr> \<and>
   selectedMovie (videos_settle (Resolved 200 (Some [\<lparr>video_type = ''Trailer'', site = ''YouTube'', key = ''abc123''\<rparr>])) app_init) =
     Some \<lparr>sel_movie = None, trailerUrl = Str (youtubeUrl @ ''abc123'')\<rparr>"
  using videos_settle_found [of "[\<lparr>video_type = ''Trailer'', site = ''YouTube'', key = ''abc123''\<rparr>]"
      "\<lparr>video_type = ''Trailer'', site = ''YouTube'', key = ''abc123''\<rparr>" app_init]
  by (simp add: is_trailer_def app_init_def)

text \<open>
  C12: when the lookup answers without a YouTube trailer, without results or
  with a status other than 200, the selected movie's \<open>trailerUrl\<close> becomes the
  explicit \<open>null\<close> marker, never left \<open>undefined\<close>.
\<close>

theorem videos_settle_none_marker:
  assumes "ok_results status results = None \<or>
           (\<exists>vs. ok_results status results = Some vs \<and> (\<forall>v\<in>set vs. \<not> is_trailer v))"
  shows "\<exists>s. selectedMovie (videos_settle (Resolved status results) st) = Some s
             \<and> trailerUrl s = Null"
proof -
  from assms have "trailer_of status results = Null"
    by (auto simp: trailer_of_def find_trailer_None [symmetric] split: option.splits)
  then show ?thesis
    by (simp add: videos_settle_def set_trailer_def split: option.splits)
qed

lemma videos_settle_none_marker_witness:
  "(ok_results 200 (Some [\<lparr>video_type = ''Teaser'', site = ''YouTube'', key = ''k''\<rparr>]) = None \<or>
    (\<exists>vs. ok_results 200 (Some [\<lparr>video_type = ''Teaser'', site = ''YouTube'', key = ''k''\<rparr>]) = Some vs
          \<and> (\<forall>v\<in>set vs. \<not> is_trailer v))) \<and>
   (\<exists>s. selectedMovie (videos_settle (Resolved 200 (Some [\<lparr>video_type = ''Teaser'', site = ''YouTube'', key = ''k''\<rparr>])) app_init) = Some s
        \<and> trailerUrl s = Null)"
proof -
  have h: "ok_results 200 (Some [\<lparr>video_type = ''Teaser'', site = ''YouTube'', key = ''k''\<rparr>]) = None \<or>
    (\<exists>vs. ok_results 200 (Some [\<lparr>video_type = ''Teaser'', site = ''YouTube'', key = ''k''\<rparr>]) = Some vs
          \<and> (\<forall>v\<in>set vs. \<not> is_trailer v))"
    by (simp add: is_trailer_def)
  show ?thesis using h videos_settle_none_marker [OF h, of app_init] by blast
qed

text \<open>
  A rejected trailer lookup changes nothing: the error is only logged and
  the selected movie's \<open>trailerUrl\<close> stays unresolved.
\<close>

theorem videos_settle_rejected:
  "videos_settle (Rejected resp) st = st"
  by (simp add: videos_settle_def)

text \<open>
  C14: the Detail Resolver never surfaces anything outside the selection: a
  click, a settled lookup and Close leave the list, the error message, the query
  and the loading flag as they were.
\<close>

theorem detail_resolver_frame:
  "movies (handleMovieClick m st) = movies st \<and> errorMessage (handleMovieClick m st) = errorMessage st \<and>
   loading (handleMovieClick m st) = loading st \<and> searchQuery (handleMovieClick m st) = searchQuery st \<and>
   movies (videos_settle r st) = movies st \<and> errorMessage (videos_settle r st) = errorMessage st \<and>
   loading (videos_settle r st) = loading st \<and> searchQuery (videos_settle r st) = searchQuery st \<and>
   inflight (videos_settle r st) = inflight st \<and>
   movies (closeModal st) = movies st \<and> errorMessage (closeModal st) = errorMessage st \<and>
   loading (closeModal st) = loading st \<and> searchQuery (closeModal st) = searchQuery st \<and>
   inflight (closeModal st) = inflight st"
  by (simp add: handleMovieClick_def videos_settle_def closeModal_def split: axios_result.splits)

lemma detail_fields [simp]:
  "movies (handleMovieClick m st) = movies st"
  "errorMessage (handleMovieClick m st) = errorMessage st"
  "loading (handleMovieClick m st) = loading st"
  "searchQuery (handleMovieClick m st) = searchQuery st"
  "selectedMovie (handleMovieClick m st) = Some \<lparr>sel_movie = Some m, trailerUrl = Undef\<rparr>"
  "inflight (handleMovieClick m st) = inflight st @ [(VideosLoad, videos_request m)]"
  "movies (videos_settle r st) = movies st"
  "errorMessage (videos_settle r st) = errorMessage st"
  "loading (videos_settle r st) = loading st"
  "searchQuery (videos_settle r st) = searchQuery st"
  "inflight (videos_settle r st) = inflight st"
  by (simp_all add: handleMovieClick_def videos_settle_def split: axios_result.splits)

end
