(* ===== verification/EventLoop.thy ===== *)
theory EventLoop
  imports SearchController DetailResolver
begin

text \<open>
  The single-threaded event loop that runs the component. After the mount
  effect has issued the popular-list request (\<open>app_start\<close>), each step is one
  event: the user types (\<open>onChange\<close>, line 164), clicks a displayed movie
  (\<open>onClick\<close>, line 178), clicks Close (line 215), or the runtime resumes one
  suspended handler with the outcome of its request. Any in-flight request may
  settle next, so responses may come back in any order; nothing is cancelled.
  \<open>app_step\<close> returns \<open>None\<close> for an event that cannot happen in the state
  (a click on a movie that is not displayed, a settlement of a request that is
  not in flight or of the wrong kind).
\<close>

datatype event =
    InputChange string
  | MovieClick movie
  | CloseClick
  | SettleMovies nat "movie axios_result"
  | SettleVideos nat "video axios_result"

definition app_start :: app_state where
  "app_start = fetchMovies_start app_init"

fun settle_list :: "pending \<Rightarrow> movie axios_result \<Rightarrow> app_state \<Rightarrow> app_state option" where
  "settle_list PopularLoad res st = Some (fetchMovies_settle res st)"
| "settle_list PopularReload res st = Some (reload_settle res st)"
| "settle_list (SearchLoad q) res st = Some (search_settle res st)"
| "settle_list VideosLoad res st = None"

definition resume :: "nat \<Rightarrow> app_state \<Rightarrow> app_state" where
  "resume i st = st\<lparr>inflight := drop_at i (inflight st)\<rparr>"

fun app_step :: "app_state \<Rightarrow> event \<Rightarrow> app_state option" where
  "app_step st (InputChange q) = Some (handleSearchChange q st)"
| "app_step st (MovieClick m) =
     (if m \<in> set (movies st) then Some (handleMovieClick m st) else None)"
| "app_step st CloseClick =
     (if selectedMovie st \<noteq> None then Some (closeModal st) else None)"
| "app_step st (SettleMovies i res) =
     (if i < length (inflight st) then settle_list (fst (inflight st ! i)) res (resume i st)
      else None)"
| "app_step st (SettleVideos i res) =
     (if i < length (inflight st) \<and> fst (inflight st ! i) = VideosLoad
      then Some (videos_settle res (resume i st)) else None)"

fun run :: "app_state \<Rightarrow> event list \<Rightarrow> app_state option" where
  "run st [] = Some st"
| "run st (e # es) = (case app_step st e of None \<Rightarrow> None | Some st' \<Rightarrow> run st' es)"

inductive reachable :: "app_state \<Rightarrow> bool" where
  start: "reachable app_start"
| step: "reachable st \<Longrightarrow> app_step st e = Some st' \<Longrightarrow> reachable st'"

definition selection_ok :: "app_state \<Rightarrow> bool" where
  "selection_ok st \<longleftrightarrow>
     (case selectedMovie st of None \<Rightarrow> True | Some s \<Rightarrow> sel_movie s = None \<longrightarrow> trailerUrl s \<noteq> Undef)"

fun request_ok :: "pending \<Rightarrow> request \<Rightarrow> bool" where
  "request_ok PopularLoad rq = (rq = popular_request)"
| "request_ok PopularReload rq = (rq = popular_request)"
| "request_ok (SearchLoad q) rq = (q \<noteq> [] \<and> rq = search_request q)"
| "request_ok VideosLoad rq = (req_url rq = videosUrl)"

definition mount_loads :: "app_state \<Rightarrow> nat" where
  "mount_loads st = length (filter (\<lambda>(k, rq). k = PopularLoad) (inflight st))"

text \<open>
  An environment schedule that settles every in-flight request in order, list
  requests with outcome \<open>res\<close> and trailer lookups with outcome \<open>vres\<close>.
\<close>

fun drain :: "movie axios_result \<Rightarrow> video axios_result \<Rightarrow> (pending \<times> request) list \<Rightarrow> event list" where
  "drain res vres [] = []"
| "drain res vres ((k, rq) # ps) =
     (if is_list_load k then SettleMovies 0 res else SettleVideos 0 vres) # drain res vres ps"

definition trailer_url_ok :: "app_state \<Rightarrow> bool" where
  "trailer_url_ok st \<longleftrightarrow>
     (case selectedMovie st of
        None \<Rightarrow> True
      | Some s \<Rightarrow> (case trailerUrl s of Str u \<Rightarrow> take (length youtubeUrl) u = youtubeUrl | _ \<Rightarrow> True))"

fun_cases app_step_SettleMoviesE: "app_step st (SettleMovies i res) = Some st'"
fun_cases app_step_SettleVideosE: "app_step st (SettleVideos i res) = Some st'"

subsection \<open>Runs and reachable states\<close>

lemma run_reachable: "reachable st \<Longrightarrow> run st es = Some st' \<Longrightarrow> reachable st'"
proof (induction es arbitrary: st)
  case Nil
  then show ?case by simp
next
  case (Cons e es)
  then obtain st1 where "app_step st e = Some st1" and "run st1 es = Some st'"
    by (auto split: option.splits)
  with Cons show ?case by (blast intro: reachable.step)
qed

lemma settle_list_Some:
  assumes "settle_list k res st = Some st'"
  shows "is_list_load k \<and>
         (st' = fetchMovies_settle res st \<or> st' = reload_settle res st \<or> st' = search_settle res st)"
  using assms by (cases k) auto

lemma settle_list_frame:
  assumes "settle_list k res st = Some st'"
  shows "\<not> loading st' \<and> selectedMovie st' = selectedMovie st \<and> inflight st' = inflight st
         \<and> (known_message (errorMessage st) \<longrightarrow> known_message (errorMessage st'))"
  using settle_list_Some [OF assms] search_known_messages by auto

lemma resume_fields [simp]:
  "movies (resume i st) = movies st" "selectedMovie (resume i st) = selectedMovie st"
  "errorMessage (resume i st) = errorMessage st" "loading (resume i st) = loading st"
  "searchQuery (resume i st) = searchQuery st" "inflight (resume i st) = drop_at i (inflight st)"
  by (simp_all add: resume_def)

lemma app_start_fields:
  "movies app_start = []" "selectedMovie app_start = None" "searchQuery app_start = []"
  "errorMessage app_start = []" "loading app_start = True"
  "inflight app_start = [(PopularLoad, popular_request)]"
  by (simp_all add: app_start_def fetchMovies_start_def app_init_def)

lemma trailer_of_not_Undef: "trailer_of status results \<noteq> Undef"
  by (simp add: trailer_of_def split: option.splits)

lemma list_loads_append [simp]:
  "filter (is_list_load \<circ> fst) (xs @ [(k, rq)]) =
     (if is_list_load k then filter (is_list_load \<circ> fst) xs @ [(k, rq)] else filter (is_list_load \<circ> fst) xs)"
  by simp

subsection \<open>One step keeps each invariant\<close>

lemma step_known_message:
  assumes "app_step st e = Some st'" and "known_message (errorMessage st)"
  shows "known_message (errorMessage st')"
  using assms
  by (cases e) (auto simp: closeModal_def split: if_splits dest: settle_list_frame)

lemma step_loading:
  assumes "app_step st e = Some st'" and "loading st \<longrightarrow> list_loads st \<noteq> []"
  shows "loading st' \<longrightarrow> list_loads st' \<noteq> []"
proof (cases e)
  case (SettleVideos i res)
  with assms(1) have i: "i < length (inflight st)" "fst (inflight st ! i) = VideosLoad"
    and st': "st' = videos_settle res (resume i st)"
    by (auto split: if_splits)
  from i have "list_loads (resume i st) = list_loads st"
    by (simp add: list_loads_def filter_drop_at)
  with st' assms(2) show ?thesis by (simp add: list_loads_def)
next
  case (SettleMovies i res)
  with assms(1) show ?thesis by (auto split: if_splits dest: settle_list_frame)
qed (use assms in \<open>auto simp: list_loads_def closeModal_def handleSearchChange_inflight
                          split: if_splits\<close>)

lemma step_selection_ok:
  assumes "app_step st e = Some st'" and "selection_ok st"
  shows "selection_ok st'"
  using assms trailer_of_not_Undef
  by (cases e)
     (auto simp: selection_ok_def closeModal_def videos_settle_def set_trailer_def
           split: if_splits option.splits axios_result.splits dest: settle_list_frame)

subsection \<open>Invariants of every reachable state\<close>

lemma reachable_loading_inv: "reachable st \<Longrightarrow> loading st \<longrightarrow> list_loads st \<noteq> []"
proof (induction rule: reachable.induct)
  case start
  show ?case by (simp add: list_loads_def app_start_fields)
next
  case (step st e st')
  from step.hyps(2) step.IH show ?case by (rule step_loading)
qed

text \<open>
  C1: in every state the component can reach, the error message is empty or one
  of the four fixed messages of the source.
\<close>

theorem reachable_known_error_message:
  "reachable st \<Longrightarrow> known_message (errorMessage st)"
proof (induction rule: reachable.induct)
  case start
  show ?case by (simp add: app_start_fields)
next
  case (step st e st')
  then show ?case by (blast intro: step_known_message)
qed

lemma reachable_known_error_message_witness:
  "reachable app_start \<and> known_message (errorMessage app_start)"
  using reachable_known_error_message [OF reachable.start] reachable.start by blast

text \<open>
  C2: whenever the loading indicator is shown, some list request (popular or
  search) is still in flight: the flag never stays up with nothing pending.
\<close>

theorem reachable_loading_inflight:
  "reachable st \<Longrightarrow> loading st \<Longrightarrow> \<exists>(k, rq) \<in> set (inflight st). is_list_load k"
  by (drule reachable_loading_inv) (fastforce simp: list_loads_def filter_empty_conv)

lemma reachable_loading_inflight_witness:
  "reachable app_start \<and> loading app_start \<and>
   (\<exists>(k, rq) \<in> set (inflight app_start). is_list_load k)"
  using reachable_loading_inflight [OF reachable.start] reachable.start
  by (simp add: app_start_fields)

text \<open>
  C31: a selection that carries no movie fields (the result of spreading
  \<open>null\<close> in the trailer update) always carries a resolved \<open>trailerUrl\<close>: such
  an object is only ever created by a settling trailer lookup.
\<close>

theorem reachable_selection_shape:
  assumes "reachable st" and "selectedMovie st = Some s" and "sel_movie s = None"
  shows "trailerUrl s \<noteq> Undef"
proof -
  from assms(1) have "selection_ok st"
  proof (induction rule: reachable.induct)
    case start
    show ?case by (simp add: selection_ok_def app_start_fields)
  next
    case (step st e st')
    then show ?case by (blast intro: step_selection_ok)
  qed
  with assms(2,3) show ?thesis by (simp add: selection_ok_def)
qed

lemmas run_eval_simps = handler_simps app_start_def app_init_def issue_def resume_def
  list_loads_def selection_ok_def

lemma reachable_selection_shape_witness:
  "reachable (videos_settle (Resolved 200 (Some []))
                (resume 0 (closeModal (handleMovieClick
                  \<lparr>movie_id = 42, title = ''A'', poster_path = None, release_date = [], overview = []\<rparr>
                  (fetchMovies_settle (Resolved 200 (Some [\<lparr>movie_id = 42, title = ''A'', poster_path = None, release_date = [], overview = []\<rparr>]))
                     (resume 0 app_start)))))) \<and>
   selectedMovie (videos_settle (Resolved 200 (Some []))
                (resume 0 (closeModal (handleMovieClick
                  \<lparr>movie_id = 42, title = ''A'', poster_path = None, release_date = [], overview = []\<rparr>
                  (fetchMovies_settle (Resolved 200 (Some [\<lparr>movie_id = 42, title = ''A'', poster_path = None, release_date = [], overview = []\<rparr>]))
                     (resume 0 app_start)))))) = Some \<lparr>sel_movie = None, trailerUrl = Null\<rparr> \<and>
   sel_movie \<lparr>sel_movie = None, trailerUrl = Null\<rparr> = None \<and>
   trailerUrl \<lparr>sel_movie = None, trailerUrl = Null\<rparr> \<noteq> Undef"
proof -
  define m where "m = \<lparr>movie_id = 42, title = ''A'', poster_path = None, release_date = [], overview = ([] :: string)\<rparr>"
  define st where "st = videos_settle (Resolved 200 (Some []))
                (resume 0 (closeModal (handleMovieClick m
                  (fetchMovies_settle (Resolved 200 (Some [m])) (resume 0 app_start)))))"
  have run: "run app_start [SettleMovies 0 (Resolved 200 (Some [m])), MovieClick m, CloseClick,
                            SettleVideos 0 (Resolved 200 (Some []))] = Some st"
    by (simp add: st_def run_eval_simps)
  have r: "reachable st" using run_reachable [OF reachable.start run] .
  have sel: "selectedMovie st = Some \<lparr>sel_movie = None, trailerUrl = Null\<rparr>"
    by (simp add: st_def run_eval_simps trailer_of_def set_trailer_def)
  have "trailerUrl \<lparr>sel_movie = None, trailerUrl = Null\<rparr> \<noteq> Undef"
    using reachable_selection_shape [OF r sel] by simp
  with r sel show ?thesis by (simp add: st_def m_def)
qed

subsection \<open>Interleaving of requests\<close>

text \<open>
  Whichever list request settles, the loading flag is down afterwards
  (the \<open>finally\<close> blocks), whatever the outcome.
\<close>

theorem settle_clears_loading:
  assumes "app_step st (SettleMovies i res) = Some st'"
  shows "\<not> loading st'"
  using assms by (auto split: if_splits dest: settle_list_frame)

text \<open>
  C21: the loading flag does not track the requests in flight: when two list
  requests overlap, the first to settle lowers the flag while the other is still
  pending (specification, section 3: ``true only strictly between a request's
  start and its settled outcome'').
\<close>

theorem loading_cleared_while_request_pending:
  assumes "i < length (inflight st)" and "j < length (inflight st)" and "i \<noteq> j"
    and "is_list_load (fst (inflight st ! i))" and "is_list_load (fst (inflight st ! j))"
  shows "\<exists>st'. app_step st (SettleMovies i res) = Some st' \<and> \<not> loading st' \<and> list_loads st' \<noteq> []"
proof -
  obtain st' where st': "settle_list (fst (inflight st ! i)) res (resume i st) = Some st'"
    using assms(4) by (cases "fst (inflight st ! i)") auto
  then have "\<not> loading st'" and "inflight st' = drop_at i (inflight st)"
    using settle_list_frame by auto
  moreover have "inflight st ! j \<in> set (drop_at i (inflight st))"
    using assms(2,3) by (simp add: nth_in_drop_at)
  ultimately have "list_loads st' \<noteq> []"
    using assms(5) by (auto simp: list_loads_def filter_empty_conv)
  with st' assms(1) \<open>\<not> loading st'\<close> show ?thesis by simp
qed

lemma loading_cleared_while_request_pending_witness:
  "\<exists>st'. app_step (handleSearchChange ''a'' app_start) (SettleMovies 0 (Resolved 200 (Some [])))
          = Some st' \<and> \<not> loading st' \<and> list_loads st' \<noteq> []"
  using loading_cleared_while_request_pending
          [of 0 "handleSearchChange ''a'' app_start" 1 "Resolved 200 (Some [])"]
  by (simp add: run_eval_simps)

text \<open>
  C20: a search response is applied whenever it arrives, whether or not its
  query is still the one in the input: the last response wins, not the last
  request (specification, sections 4.2 and 5).
\<close>

theorem stale_search_response_applied:
  assumes "i < length (inflight st)" and "fst (inflight st ! i) = SearchLoad q" and "ms \<noteq> []"
  shows "\<exists>st'. app_step st (SettleMovies i (Resolved 200 (Some ms))) = Some st'
               \<and> movies st' = ms \<and> searchQuery st' = searchQuery st \<and> errorMessage st' = []"
  using assms by (simp add: search_settle_def)

lemma stale_search_response_applied_witness:
  "1 < length (inflight (handleSearchChange ''ab'' (handleSearchChange ''a'' app_start))) \<and>
   fst (inflight (handleSearchChange ''ab'' (handleSearchChange ''a'' app_start)) ! 1) = SearchLoad ''a'' \<and>
   searchQuery (handleSearchChange ''ab'' (handleSearchChange ''a'' app_start)) = ''ab'' \<and>
   (\<exists>st'. app_step (handleSearchChange ''ab'' (handleSearchChange ''a'' app_start))
            (SettleMovies 1 (Resolved 200 (Some [\<lparr>movie_id = 7, title = ''A'', poster_path = None, release_date = [], overview = []\<rparr>]))) = Some st'
          \<and> movies st' = [\<lparr>movie_id = 7, title = ''A'', poster_path = None, release_date = [], overview = []\<rparr>]
          \<and> searchQuery st' = ''ab'' \<and> errorMessage st' = [])"
proof -
  let ?st = "handleSearchChange ''ab'' (handleSearchChange ''a'' app_start)"
  have i: "1 < length (inflight ?st)" and k: "fst (inflight ?st ! 1) = SearchLoad ''a''"
    by (simp_all add: handleSearchChange_inflight app_start_fields)
  show ?thesis
    using stale_search_response_applied [OF i k, of "[\<lparr>movie_id = 7, title = ''A'', poster_path = None, release_date = [], overview = []\<rparr>]"]
    by (simp add: handleSearchChange_inflight app_start_fields)
qed

text \<open>
  C19: a trailer lookup that settles after the dialog was closed reopens it: the
  functional update spreads \<open>null\<close> and yields an object that has only a
  \<open>trailerUrl\<close>, which the view renders as a dialog without a title, poster or
  overview.
\<close>

theorem settle_after_close_reopens:
  assumes "app_step st (SettleVideos i (Resolved status results)) = Some st'"
      and "selectedMovie st = None"
  shows "selectedMovie st' = Some \<lparr>sel_movie = None, trailerUrl = trailer_of status results\<rparr>"
  using assms by (auto simp: videos_settle_def set_trailer_def split: if_splits)

lemma settle_after_close_reopens_witness:
  "app_step (closeModal (handleMovieClick \<lparr>movie_id = 42, title = ''A'', poster_path = None, release_date = [], overview = []\<rparr> app_init))
       (SettleVideos 0 (Resolved 200 (Some [])))
     = Some (videos_settle (Resolved 200 (Some [])) (resume 0 (closeModal (handleMovieClick \<lparr>movie_id = 42, title = ''A'', poster_path = None, release_date = [], overview = []\<rparr> app_init)))) \<and>
   selectedMovie (closeModal (handleMovieClick \<lparr>movie_id = 42, title = ''A'', poster_path = None, release_date = [], overview = []\<rparr> app_init)) = None \<and>
   selectedMovie (videos_settle (Resolved 200 (Some [])) (resume 0 (closeModal (handleMovieClick \<lparr>movie_id = 42, title = ''A'', poster_path = None, release_date = [], overview = []\<rparr> app_init))))
     = Some \<lparr>sel_movie = None, trailerUrl = Null\<rparr>"
proof -
  let ?st = "closeModal (handleMovieClick \<lparr>movie_id = 42, title = ''A'', poster_path = None, release_date = [], overview = []\<rparr> app_init)"
  have h1: "app_step ?st (SettleVideos 0 (Resolved 200 (Some []))) = Some (videos_settle (Resolved 200 (Some [])) (resume 0 ?st))"
    by (simp add: closeModal_def app_init_def)
  have h2: "selectedMovie ?st = None" by (simp add: closeModal_def)
  have "trailer_of 200 (Some ([] :: video list)) = Null" by (simp add: trailer_of_def)
  then show ?thesis using h1 h2 settle_after_close_reopens [OF h1 h2] by simp
qed

subsection \<open>Requests in flight\<close>

lemma settle_step_inflight:
  assumes "app_step st (SettleMovies i res) = Some st' \<or> app_step st (SettleVideos i vres) = Some st'"
  shows "i < length (inflight st) \<and> inflight st' = drop_at i (inflight st)"
  using assms
  by (auto elim!: app_step_SettleMoviesE app_step_SettleVideosE split: if_splits
           dest!: settle_list_frame)

lemma step_requests_ok:
  assumes "app_step st e = Some st'" and "\<forall>(k, rq) \<in> set (inflight st). request_ok k rq"
  shows "\<forall>(k, rq) \<in> set (inflight st'). request_ok k rq"
proof (cases "\<exists>i res vres. e = SettleMovies i res \<or> e = SettleVideos i vres")
  case True
  with assms(1) obtain i where "inflight st' = drop_at i (inflight st)"
    by (metis settle_step_inflight)
  then have "set (inflight st') \<subseteq> set (inflight st)"
    by (simp add: set_drop_at_subset)
  with assms(2) show ?thesis by blast
next
  case False
  with assms show ?thesis
    by (cases e) (auto simp: closeModal_def handleSearchChange_inflight videos_request_def
                      split: if_splits)
qed

lemma step_mount_loads:
  assumes "app_step st e = Some st'"
  shows "mount_loads st' \<le> mount_loads st"
proof (cases "\<exists>i res vres. e = SettleMovies i res \<or> e = SettleVideos i vres")
  case True
  with assms obtain i where "inflight st' = drop_at i (inflight st)"
    by (metis settle_step_inflight)
  then show ?thesis by (simp add: mount_loads_def length_filter_drop_at)
next
  case False
  with assms show ?thesis
    by (cases e) (auto simp: mount_loads_def closeModal_def handleSearchChange_inflight
                      split: if_splits)
qed

text \<open>
  C33: a list request that settles never changes the selection, and either
  leaves the list as it was or replaces it wholesale by the results of a 200
  response: lists are never merged.
\<close>

theorem list_settle_replaces_or_keeps:
  assumes "app_step st (SettleMovies i res) = Some st'"
  shows "selectedMovie st' = selectedMovie st \<and>
         (movies st' = movies st \<or> res = Resolved 200 (Some (movies st')))"
proof -
  from assms have i: "i < length (inflight st)"
    and k: "settle_list (fst (inflight st ! i)) res (resume i st) = Some st'"
    by (auto split: if_splits)
  from settle_list_Some [OF k] show ?thesis
    by (auto simp: fetchMovies_settle_def reload_settle_def search_settle_def
             split: axios_result.splits option.splits if_splits)
qed

lemma list_settle_replaces_or_keeps_witness:
  "app_step app_start (SettleMovies 0 (Resolved 200 (Some [])))
     = Some (fetchMovies_settle (Resolved 200 (Some [])) (resume 0 app_start)) \<and>
   selectedMovie (fetchMovies_settle (Resolved 200 (Some [])) (resume 0 app_start)) = selectedMovie app_start \<and>
   (movies (fetchMovies_settle (Resolved 200 (Some [])) (resume 0 app_start)) = movies app_start \<or>
    (Resolved 200 (Some []) :: movie axios_result)
      = Resolved 200 (Some (movies (fetchMovies_settle (Resolved 200 (Some [])) (resume 0 app_start)))))"
proof -
  have h: "app_step app_start (SettleMovies 0 (Resolved 200 (Some [])))
     = Some (fetchMovies_settle (Resolved 200 (Some [])) (resume 0 app_start))"
    by (simp add: app_start_fields)
  show ?thesis using h list_settle_replaces_or_keeps [OF h] by blast
qed

text \<open>
  C34: every request in flight is the one its handler sends: the popular-list
  request for the mount effect and for an empty query, the search request with
  its own non-empty query for a search, the videos endpoint for a click.
\<close>

theorem reachable_requests_ok:
  assumes "reachable st" and "(k, rq) \<in> set (inflight st)"
  shows "request_ok k rq"
proof -
  from assms(1) have "\<forall>(k, rq) \<in> set (inflight st). request_ok k rq"
  proof (induction rule: reachable.induct)
    case start
    show ?case by (simp add: app_start_fields)
  next
    case (step st e st')
    from step.hyps(2) step.IH show ?case by (rule step_requests_ok)
  qed
  with assms(2) show ?thesis by blast
qed

lemma reachable_requests_ok_witness:
  "reachable app_start \<and> (PopularLoad, popular_request) \<in> set (inflight app_start) \<and>
   request_ok PopularLoad popular_request"
  using reachable_requests_ok [OF reachable.start, of PopularLoad popular_request] reachable.start
  by (simp add: app_start_fields)

text \<open>
  C35: the Catalog Loader runs once: in every reachable state at most one
  request of the mount effect is in flight, and no event issues another.
\<close>

theorem reachable_mount_once:
  assumes "reachable st"
  shows "mount_loads st \<le> 1"
  using assms
proof (induction rule: reachable.induct)
  case start
  show ?case by (simp add: mount_loads_def app_start_fields)
next
  case (step st e st')
  from step_mount_loads [OF step.hyps(2)] step.IH show ?case by simp
qed

lemma reachable_mount_once_witness:
  "reachable app_start \<and> mount_loads app_start \<le> 1"
  using reachable_mount_once [OF reachable.start] reachable.start by blast

subsection \<open>Which events touch what\<close>

text \<open>
  C36: a trailer lookup writes its result into whatever is selected when it
  settles, not into the movie whose click issued it (the pending lookup does
  not even record that movie): after clicking A and then B, the answer to A's
  lookup becomes B's trailer (specification, section 3: trailer resolution
  ``mutates only the trailer field of the same logical movie'').
\<close>

theorem trailer_lands_on_current_selection:
  assumes "app_step st (SettleVideos i (Resolved status results)) = Some st'"
      and "selectedMovie st = Some s"
  shows "selectedMovie st' = Some (s\<lparr>trailerUrl := trailer_of status results\<rparr>)"
  using assms by (auto simp: videos_settle_def set_trailer_def split: if_splits)

lemma trailer_lands_on_current_selection_witness:
  "app_step (handleMovieClick \<lparr>movie_id = 2, title = ''B'', poster_path = None, release_date = [], overview = []\<rparr>
               (handleMovieClick \<lparr>movie_id = 1, title = ''A'', poster_path = None, release_date = [], overview = []\<rparr> app_init))
       (SettleVideos 0 (Resolved 200 (Some [\<lparr>video_type = ''Trailer'', site = ''YouTube'', key = ''aaa''\<rparr>])))
     = Some (videos_settle (Resolved 200 (Some [\<lparr>video_type = ''Trailer'', site = ''YouTube'', key = ''aaa''\<rparr>]))
               (resume 0 (handleMovieClick \<lparr>movie_id = 2, title = ''B'', poster_path = None, release_date = [], overview = []\<rparr>
                 (handleMovieClick \<lparr>movie_id = 1, title = ''A'', poster_path = None, release_date = [], overview = []\<rparr> app_init)))) \<and>
   selectedMovie (handleMovieClick \<lparr>movie_id = 2, title = ''B'', poster_path = None, release_date = [], overview = []\<rparr>
               (handleMovieClick \<lparr>movie_id = 1, title = ''A'', poster_path = None, release_date = [], overview = []\<rparr> app_init))
     = Some \<lparr>sel_movie = Some \<lparr>movie_id = 2, title = ''B'', poster_path = None, release_date = [], overview = []\<rparr>, trailerUrl = Undef\<rparr> \<and>
   selectedMovie (videos_settle (Resolved 200 (Some [\<lparr>video_type = ''Trailer'', site = ''YouTube'', key = ''aaa''\<rparr>]))
               (resume 0 (handleMovieClick \<lparr>movie_id = 2, title = ''B'', poster_path = None, release_date = [], overview = []\<rparr>
                 (handleMovieClick \<lparr>movie_id = 1, title = ''A'', poster_path = None, release_date = [], overview = []\<rparr> app_init))))
     = Some \<lparr>sel_movie = Some \<lparr>movie_id = 2, title = ''B'', poster_path = None, release_date = [], overview = []\<rparr>,
             trailerUrl = Str (youtubeUrl @ ''aaa'')\<rparr>"
proof -
  let ?a = "\<lparr>movie_id = 1, title = ''A'', poster_path = None, release_date = [], overview = ([] :: string)\<rparr>"
  let ?b = "\<lparr>movie_id = 2, title = ''B'', poster_path = None, release_date = [], overview = ([] :: string)\<rparr>"
  let ?vs = "[\<lparr>video_type = ''Trailer'', site = ''YouTube'', key = ''aaa''\<rparr>]"
  let ?st = "handleMovieClick ?b (handleMovieClick ?a app_init)"
  have h1: "app_step ?st (SettleVideos 0 (Resolved 200 (Some ?vs)))
              = Some (videos_settle (Resolved 200 (Some ?vs)) (resume 0 ?st))"
    by (simp add: app_init_def)
  have h2: "selectedMovie ?st = Some \<lparr>sel_movie = Some ?b, trailerUrl = Undef\<rparr>" by simp
  have "trailer_of 200 (Some ?vs) = Str (youtubeUrl @ ''aaa'')"
    by (simp add: trailer_of_def is_trailer_def)
  then show ?thesis using h1 h2 trailer_lands_on_current_selection [OF h1 h2] by simp
qed

text \<open>
  C37: only the settlement of a list request changes the error message: typing,
  clicking a movie, closing the dialog and trailer lookups never do, so a
  failed trailer lookup is never shown to the user.
\<close>

theorem error_changes_only_on_list_settle:
  assumes "app_step st e = Some st'" and "errorMessage st' \<noteq> errorMessage st"
  shows "\<exists>i res. e = SettleMovies i res"
  using assms by (cases e) (auto simp: closeModal_def split: if_splits)

lemma error_changes_only_on_list_settle_witness:
  "app_step app_start (SettleMovies 0 (Rejected None)) = Some (fetchMovies_settle (Rejected None) (resume 0 app_start)) \<and>
   errorMessage (fetchMovies_settle (Rejected None) (resume 0 app_start)) \<noteq> errorMessage app_start \<and>
   (\<exists>i res. SettleMovies 0 (Rejected None) = SettleMovies i res)"
proof -
  have h1: "app_step app_start (SettleMovies 0 (Rejected None)) = Some (fetchMovies_settle (Rejected None) (resume 0 app_start))"
    by (simp add: app_start_fields)
  have h2: "errorMessage (fetchMovies_settle (Rejected None) (resume 0 app_start)) \<noteq> errorMessage app_start"
    by (simp add: fetchMovies_settle_def app_start_fields)
  show ?thesis using h1 h2 error_changes_only_on_list_settle [OF h1 h2] by blast
qed

subsection \<open>Progress: every request can settle\<close>

lemma drain_run:
  assumes "inflight st = ps"
  shows "\<exists>st'. run st (drain res vres ps) = Some st' \<and> inflight st' = []
               \<and> (loading st' \<longleftrightarrow> loading st \<and> filter (is_list_load \<circ> fst) ps = [])"
  using assms
proof (induction ps arbitrary: st)
  case Nil
  then show ?case by simp
next
  case (Cons p ps)
  obtain k rq where p: "p = (k, rq)" by (cases p)
  show ?case
  proof (cases "is_list_load k")
    case True
    then obtain st1 where st1: "settle_list k res (resume 0 st) = Some st1"
      by (cases k) auto
    from settle_list_frame [OF st1] Cons.prems p
    have "inflight st1 = ps" and "\<not> loading st1" by simp_all
    with Cons.IH [of st1] st1 True Cons.prems p show ?thesis by auto
  next
    case False
    let ?st1 = "videos_settle vres (resume 0 st)"
    from False have k: "k = VideosLoad" by (cases k) auto
    have "inflight ?st1 = ps" "loading ?st1 = loading st"
      using Cons.prems p by simp_all
    with Cons.IH [of ?st1] False k Cons.prems p show ?thesis by auto
  qed
qed

text \<open>
  C38: from every reachable state, whatever the server answers, settling the
  requests in flight one by one is a run of the component that ends with no
  request pending and the loading indicator gone: the flag can only stay up
  while the server has not answered.
\<close>

theorem reachable_can_settle:
  assumes "reachable st"
  shows "\<exists>st'. run st (drain res vres (inflight st)) = Some st' \<and> inflight st' = [] \<and> \<not> loading st'"
proof -
  obtain st' where run: "run st (drain res vres (inflight st)) = Some st'"
    and empty: "inflight st' = []"
    and l: "loading st' \<longleftrightarrow> loading st \<and> filter (is_list_load \<circ> fst) (inflight st) = []"
    using drain_run [of st "inflight st" res vres] by blast
  from reachable_loading_inv [OF assms] l have "\<not> loading st'"
    by (auto simp: list_loads_def)
  with run empty show ?thesis by blast
qed

lemma reachable_can_settle_witness:
  "reachable app_start \<and>
   (\<exists>st'. run app_start (drain (Rejected None) (Rejected None) (inflight app_start)) = Some st'
          \<and> inflight st' = [] \<and> \<not> loading st')"
  using reachable_can_settle [OF reachable.start, of "Rejected None" "Rejected None"] reachable.start
  by blast

subsection \<open>Only YouTube watch addresses are embedded\<close>

lemma step_trailer_url_ok:
  assumes "app_step st e = Some st'" and "trailer_url_ok st"
  shows "trailer_url_ok st'"
  using assms
  by (cases e)
     (auto simp: trailer_url_ok_def closeModal_def videos_settle_def set_trailer_def trailer_of_def
           split: if_splits option.splits axios_result.splits js_str.splits dest: settle_list_frame)

lemma reachable_trailer_url_ok: "reachable st \<Longrightarrow> trailer_url_ok st"
proof (induction rule: reachable.induct)
  case start
  show ?case by (simp add: trailer_url_ok_def app_start_fields)
next
  case (step st e st')
  from step.hyps(2) step.IH show ?case by (rule step_trailer_url_ok)
qed

end
