(* ===== verification/Render.thy ===== *)
theory Render
  imports SearchController DetailResolver
begin

text \<open>
  The view (App.jsx, lines 155--223) as a function of the state: the input shows
  the query, the error paragraph appears when \<open>errorMessage\<close> is a non-empty
  string, ``Loading...'' while the flag is up, one card per movie in list order,
  and the detail dialog when a movie is selected, with an iframe when its
  \<open>trailerUrl\<close> is a non-empty string. Static text and CSS classes are left out.
  Template literals print a missing or \<open>null\<close> poster path as the words
  \<open>undefined\<close> and \<open>null\<close>; JSX text prints both as nothing.
\<close>

definition imageBase :: url where
  "imageBase = ''https://image.tmdb.org/t/p/w500''"

record card =
  card_key :: int
  card_img :: url
  card_alt :: string
  card_title :: string
  card_date :: string

record dialog =
  dialog_title :: string
  dialog_img :: url
  dialog_alt :: js_str
  dialog_overview :: string
  dialog_iframe :: "url option"

record view =
  input_value :: string
  error_text :: "message option"
  loading_text :: bool
  cards :: "card list"
  detail :: "dialog option"

definition movie_card :: "movie \<Rightarrow> card" where
  "movie_card m =
     \<lparr>card_key = movie_id m, card_img = imageBase @ js_template (js_of_option (poster_path m)),
      card_alt = title m, card_title = title m, card_date = release_date m\<rparr>"

text \<open>A field of the selected object: absent when the object came from spreading \<open>null\<close>.\<close>

fun sel_field :: "(movie \<Rightarrow> js_str) \<Rightarrow> selection \<Rightarrow> js_str" where
  "sel_field f \<lparr>sel_movie = None, trailerUrl = u\<rparr> = Undef"
| "sel_field f \<lparr>sel_movie = Some m, trailerUrl = u\<rparr> = f m"

fun iframe_src :: "js_str \<Rightarrow> url option" where
  "iframe_src (Str u) = (if js_truthy (Str u) then Some u else None)"
| "iframe_src _ = None"

definition detail_dialog :: "selection \<Rightarrow> dialog" where
  "detail_dialog s =
     \<lparr>dialog_title = jsx_text (sel_field (Str \<circ> title) s),
      dialog_img = imageBase @ js_template (sel_field (js_of_option \<circ> poster_path) s),
      dialog_alt = sel_field (Str \<circ> title) s,
      dialog_overview = jsx_text (sel_field (Str \<circ> overview) s),
      dialog_iframe = iframe_src (trailerUrl s)\<rparr>"

definition render :: "app_state \<Rightarrow> view" where
  "render st =
     \<lparr>input_value = searchQuery st,
      error_text = (if errorMessage st \<noteq> [] then Some (errorMessage st) else None),
      loading_text = loading st,
      cards = map movie_card (movies st),
      detail = map_option detail_dialog (selectedMovie st)\<rparr>"

subsection \<open>What the user sees after each handler\<close>

text \<open>
  C25: after a search answered by a non-empty list, the grid shows exactly those
  movies, titles and keys in the server's order, with no error paragraph and no
  loading indicator.
\<close>

theorem render_after_search_success:
  assumes "ms \<noteq> []"
  shows "map card_title (cards (render (search_settle (Resolved 200 (Some ms)) st))) = map title ms
         \<and> map card_key (cards (render (search_settle (Resolved 200 (Some ms)) st))) = map movie_id ms
         \<and> error_text (render (search_settle (Resolved 200 (Some ms)) st)) = None
         \<and> \<not> loading_text (render (search_settle (Resolved 200 (Some ms)) st))"
  using assms by (simp add: render_def search_settle_def movie_card_def)

lemma render_after_search_success_witness:
  "[\<lparr>movie_id = 1, title = ''Batman'', poster_path = None, release_date = [], overview = []\<rparr>] \<noteq> [] \<and>
   map card_title (cards (render (search_settle (Resolved 200 (Some [\<lparr>movie_id = 1, title = ''Batman'', poster_path = None, release_date = [], overview = []\<rparr>])) app_init)))
     = [''Batman''] \<and>
   map card_key (cards (render (search_settle (Resolved 200 (Some [\<lparr>movie_id = 1, title = ''Batman'', poster_path = None, release_date = [], overview = []\<rparr>])) app_init)))
     = [1] \<and>
   error_text (render (search_settle (Resolved 200 (Some [\<lparr>movie_id = 1, title = ''Batman'', poster_path = None, release_date = [], overview = []\<rparr>])) app_init)) = None \<and>
   \<not> loading_text (render (search_settle (Resolved 200 (Some [\<lparr>movie_id = 1, title = ''Batman'', poster_path = None, release_date = [], overview = []\<rparr>])) app_init))"
  using render_after_search_success [of "[\<lparr>movie_id = 1, title = ''Batman'', poster_path = None, release_date = [], overview = []\<rparr>]" app_init]
  by simp

text \<open>
  C26: once the trailer lookup of an open dialog finds a YouTube trailer with
  key \<open>k\<close>, the dialog plays \<open>youtubeUrl @ k\<close>; when it finds none, the dialog
  shows no player.
\<close>

theorem render_trailer_player:
  assumes "selectedMovie st = Some s"
  shows "detail (render (videos_settle (Resolved 200 (Some vs)) st)) \<noteq> None \<and>
         map_option dialog_iframe (detail (render (videos_settle (Resolved 200 (Some vs)) st))) =
           Some (case find_trailer vs of Some t \<Rightarrow> Some (youtubeUrl @ key t) | None \<Rightarrow> None)"
  using assms
  by (simp add: render_def videos_settle_def set_trailer_def detail_dialog_def trailer_of_def
                youtubeUrl_def split: option.splits)

lemma render_trailer_player_witness:
  "selectedMovie (app_init\<lparr>selectedMovie := Some \<lparr>sel_movie = None, trailerUrl = Undef\<rparr>\<rparr>)
     = Some \<lparr>sel_movie = None, trailerUrl = Undef\<rparr> \<and>
   detail (render (videos_settle (Resolved 200 (Some [\<lparr>video_type = ''Trailer'', site = ''YouTube'', key = ''abc123''\<rparr>]))
      (app_init\<lparr>selectedMovie := Some \<lparr>sel_movie = None, trailerUrl = Undef\<rparr>\<rparr>))) \<noteq> None \<and>
   map_option dialog_iframe (detail (render (videos_settle (Resolved 200 (Some [\<lparr>video_type = ''Trailer'', site = ''YouTube'', key = ''abc123''\<rparr>]))
      (app_init\<lparr>selectedMovie := Some \<lparr>sel_movie = None, trailerUrl = Undef\<rparr>\<rparr>)))) =
     Some (Some (youtubeUrl @ ''abc123''))"
proof -
  have h: "selectedMovie (app_init\<lparr>selectedMovie := Some \<lparr>sel_movie = None, trailerUrl = Undef\<rparr>\<rparr>)
     = Some \<lparr>sel_movie = None, trailerUrl = Undef\<rparr>" by simp
  show ?thesis
    using h render_trailer_player [OF h, of "[\<lparr>video_type = ''Trailer'', site = ''YouTube'', key = ''abc123''\<rparr>]"]
    by (simp add: is_trailer_def)
qed

text \<open>
  C27: a movie whose poster path is \<open>null\<close> (allowed by the specification's data
  model) is rendered with the image address \<open>.../w500null\<close>.
\<close>

theorem null_poster_src:
  assumes "poster_path m = None"
  shows "card_img (movie_card m) = ''https://image.tmdb.org/t/p/w500null''"
  using assms by (simp add: movie_card_def imageBase_def)

lemma null_poster_src_witness:
  "poster_path \<lparr>movie_id = 3, title = ''X'', poster_path = None, release_date = [], overview = []\<rparr> = None \<and>
   card_img (movie_card \<lparr>movie_id = 3, title = ''X'', poster_path = None, release_date = [], overview = []\<rparr>)
     = ''https://image.tmdb.org/t/p/w500null''"
  using null_poster_src [of "\<lparr>movie_id = 3, title = ''X'', poster_path = None, release_date = [], overview = []\<rparr>"]
  by simp

text \<open>
  A selection that carries no movie fields (left by a trailer lookup that
  settled after Close) is rendered as a dialog with an empty title and
  overview and the image address \<open>.../w500undefined\<close>.
\<close>

theorem render_dialog_without_movie:
  assumes "selectedMovie st = Some s" and "sel_movie s = None"
  shows "\<exists>d. detail (render st) = Some d \<and> dialog_title d = [] \<and> dialog_overview d = []
             \<and> dialog_img d = ''https://image.tmdb.org/t/p/w500undefined''"
proof -
  from assms(2) obtain u where s: "s = \<lparr>sel_movie = None, trailerUrl = u\<rparr>"
    by (cases s) simp
  with assms(1) show ?thesis
    by (simp add: render_def detail_dialog_def imageBase_def)
qed

lemma render_dialog_without_movie_witness:
  "selectedMovie (app_init\<lparr>selectedMovie := Some \<lparr>sel_movie = None, trailerUrl = Null\<rparr>\<rparr>)
     = Some \<lparr>sel_movie = None, trailerUrl = Null\<rparr> \<and>
   sel_movie \<lparr>sel_movie = None, trailerUrl = Null\<rparr> = None \<and>
   (\<exists>d. detail (render (app_init\<lparr>selectedMovie := Some \<lparr>sel_movie = None, trailerUrl = Null\<rparr>\<rparr>)) = Some d
        \<and> dialog_title d = [] \<and> dialog_overview d = []
        \<and> dialog_img d = ''https://image.tmdb.org/t/p/w500undefined'')"
proof -
  have h1: "selectedMovie (app_init\<lparr>selectedMovie := Some \<lparr>sel_movie = None, trailerUrl = Null\<rparr>\<rparr>)
     = Some \<lparr>sel_movie = None, trailerUrl = Null\<rparr>" by simp
  have h2: "sel_movie \<lparr>sel_movie = None, trailerUrl = Null\<rparr> = None" by simp
  show ?thesis using h1 h2 render_dialog_without_movie [OF h1 h2] by blast
qed

end
