(* ===== verification/Runs.thy ===== *)
theory Runs
  imports EventLoop Render
begin

text \<open>
  Properties of whole runs of the component: how many requests a run sends
  and settles, how long the component can keep changing without the user, and
  what becomes of the text the user types. An event sends at most one request
  (typing or a click); a settlement removes exactly one; Close sends nothing.
\<close>

fun issues :: "event \<Rightarrow> bool" where
  "issues (InputChange q) = True"
| "issues (MovieClick m) = True"
| "issues _ = False"

fun is_settle :: "event \<Rightarrow> bool" where
  "is_settle (SettleMovies i res) = True"
| "is_settle (SettleVideos i res) = True"
| "is_settle _ = False"

fun is_input :: "event \<Rightarrow> bool" where
  "is_input (InputChange q) = True"
| "is_input _ = False"

lemma step_inflight_count:
  assumes "app_step st e = Some st'"
  shows "length (inflight st') + (if is_settle e then 1 else 0)
           = length (inflight st) + (if issues e then 1 else 0)"
proof (cases e)
  case (InputChange q)
  with assms show ?thesis by (auto simp: handleSearchChange_inflight)
next
  case (MovieClick m)
  with assms show ?thesis by (auto split: if_splits)
next
  case CloseClick
  with assms show ?thesis by (auto simp: closeModal_def split: if_splits)
next
  case (SettleMovies i res)
  with assms have "i < length (inflight st) \<and> inflight st' = drop_at i (inflight st)"
    using settle_step_inflight [of st i res st'] by blast
  with SettleMovies show ?thesis by auto
next
  case (SettleVideos i vres)
  with assms have "i < length (inflight st) \<and> inflight st' = drop_at i (inflight st)"
    using settle_step_inflight [of st i undefined st' vres] by blast
  with SettleVideos show ?thesis by auto
qed

lemma step_keeps_query:
  assumes "app_step st e = Some st'" and "\<not> is_input e"
  shows "searchQuery st' = searchQuery st"
  using assms
  by (cases e) (auto simp: closeModal_def split: if_splits dest!: settle_list_Some)

text \<open>
  C23: over any run, the requests in flight at the end plus the settlements of
  the run equal the requests in flight at the start plus the events that send
  one: no event sends more than one request and none is lost or duplicated.
\<close>

theorem run_inflight_count:
  assumes "run st es = Some st'"
  shows "length (inflight st') + length (filter is_settle es)
           = length (inflight st) + length (filter issues es)"
  using assms
proof (induction es arbitrary: st)
  case Nil
  then show ?case by simp
next
  case (Cons e es)
  then obtain st1 where s1: "app_step st e = Some st1" and r: "run st1 es = Some st'"
    by (auto split: option.splits)
  from Cons.IH [OF r] step_inflight_count [OF s1] show ?case by auto
qed

lemma run_inflight_count_witness:
  "run app_start [InputChange ''a'', SettleMovies 0 (Rejected None)]
     = Some (fetchMovies_settle (Rejected None) (resume 0 (handleSearchChange ''a'' app_start))) \<and>
   length (inflight (fetchMovies_settle (Rejected None) (resume 0 (handleSearchChange ''a'' app_start))))
     + length (filter is_settle [InputChange ''a'', SettleMovies 0 (Rejected None)])
   = length (inflight app_start) + length (filter issues [InputChange ''a'', SettleMovies 0 (Rejected None)])"
proof -
  have h: "run app_start [InputChange ''a'', SettleMovies 0 (Rejected None)]
     = Some (fetchMovies_settle (Rejected None) (resume 0 (handleSearchChange ''a'' app_start)))"
    by (simp add: handleSearchChange_inflight app_start_fields)
  show ?thesis using h run_inflight_count [OF h] by blast
qed

text \<open>
  C24: without user input the component comes to rest: a run made of
  settlements only has at most as many steps as there were requests in flight,
  each step removing one of them (with C38, that many steps are always
  possible).
\<close>

theorem settle_runs_bounded:
  assumes "run st es = Some st'" and "\<forall>e \<in> set es. is_settle e"
  shows "length es \<le> length (inflight st) \<and> length (inflight st') = length (inflight st) - length es"
  using assms
proof (induction es arbitrary: st)
  case Nil
  then show ?case by simp
next
  case (Cons e es)
  then obtain st1 where s1: "app_step st e = Some st1" and r: "run st1 es = Some st'"
    by (auto split: option.splits)
  from Cons.prems(2) have "is_settle e" and "\<not> issues e" by (cases e; simp)+
  with step_inflight_count [OF s1] have "length (inflight st1) + 1 = length (inflight st)"
    by simp
  with Cons.IH [OF r] Cons.prems(2) show ?case by auto
qed

lemma settle_runs_bounded_witness:
  "run app_start [SettleMovies 0 (Resolved 200 (Some []))]
     = Some (fetchMovies_settle (Resolved 200 (Some [])) (resume 0 app_start)) \<and>
   length [SettleMovies 0 (Resolved 200 (Some []))] \<le> length (inflight app_start) \<and>
   length (inflight (fetchMovies_settle (Resolved 200 (Some [])) (resume 0 app_start)))
     = length (inflight app_start) - length [SettleMovies 0 (Resolved 200 (Some []))]"
proof -
  have h1: "run app_start [SettleMovies 0 (Resolved 200 (Some []))]
     = Some (fetchMovies_settle (Resolved 200 (Some [])) (resume 0 app_start))"
    by (simp add: app_start_fields)
  have h2: "\<forall>e \<in> set [SettleMovies 0 (Resolved 200 (Some []))]. is_settle e" by simp
  show ?thesis using h1 h2 settle_runs_bounded [OF h1 h2] by blast
qed

text \<open>
  C5: what the user types comes back unchanged: the input shows exactly the
  typed text after any number of clicks, Close and settlements of any requests
  (no response writes the query), and a non-empty query is sent as the search
  request's \<open>query\<close> parameter without any change.
\<close>

theorem typed_query_roundtrip:
  assumes "run st (InputChange q # es) = Some st'" and "\<forall>e \<in> set es. \<not> is_input e"
  shows "input_value (render st') = q \<and>
         (q \<noteq> [] \<longrightarrow> map_of (req_params (snd (last (inflight (handleSearchChange q st))))) ''query''
                        = Some (PStr q))"
proof -
  from assms(1) have r: "run (handleSearchChange q st) es = Some st'" by simp
  have "searchQuery st' = searchQuery (handleSearchChange q st)"
    using r assms(2)
  proof (induction es arbitrary: st)
    case Nil
    then show ?case by simp
  next
    case (Cons e es)
    then obtain st1 where s1: "app_step (handleSearchChange q st) e = Some st1"
      and r1: "run st1 es = Some st'" by (auto split: option.splits)
    from Cons.prems(2) have "\<not> is_input e" by simp
    from step_keeps_query [OF s1 this] have q1: "searchQuery st1 = q" by simp
    have "searchQuery st' = searchQuery st1"
      using r1 Cons.prems(2)
    proof (induction es arbitrary: st1)
      case Nil
      then show ?case by simp
    next
      case (Cons e' es')
      then obtain st2 where "app_step st1 e' = Some st2" and "run st2 es' = Some st'"
        by (auto split: option.splits)
      with Cons.IH Cons.prems(2) step_keeps_query show ?case by fastforce
    qed
    with q1 show ?case by simp
  qed
  then show ?thesis
    by (simp add: render_def handleSearchChange_inflight search_request_def)
qed

lemma typed_query_roundtrip_witness:
  "run app_start [InputChange ''dune'', SettleMovies 1 (Resolved 200 (Some [])), SettleMovies 0 (Rejected None)]
     = Some (fetchMovies_settle (Rejected None) (resume 0
              (search_settle (Resolved 200 (Some [])) (resume 1 (handleSearchChange ''dune'' app_start))))) \<and>
   input_value (render (fetchMovies_settle (Rejected None) (resume 0
              (search_settle (Resolved 200 (Some [])) (resume 1 (handleSearchChange ''dune'' app_start)))))) = ''dune'' \<and>
   map_of (req_params (snd (last (inflight (handleSearchChange ''dune'' app_start))))) ''query''
     = Some (PStr ''dune'')"
proof -
  have h1: "run app_start (InputChange ''dune'' # [SettleMovies 1 (Resolved 200 (Some [])), SettleMovies 0 (Rejected None)])
     = Some (fetchMovies_settle (Rejected None) (resume 0
              (search_settle (Resolved 200 (Some [])) (resume 1 (handleSearchChange ''dune'' app_start)))))"
    by (simp add: handleSearchChange_inflight app_start_fields)
  have h2: "\<forall>e \<in> set [SettleMovies 1 (Resolved 200 (Some [])), SettleMovies 0 (Rejected None)]. \<not> is_input e"
    by simp
  show ?thesis using h1 h2 typed_query_roundtrip [OF h1 h2] by simp
qed

end
