(* ===== verification/Json.thy ===== *)
theory Json
  imports Api
begin

text \<open>
  The body of a resolved response at the level of JSON values. \<open>axios\<close> parses
  the body with \<open>JSON.parse\<close> and, when parsing fails, keeps the text of the
  body as \<open>response.data\<close> (its default \<open>silentJSONParsing\<close>). All four
  continuations read the body through the guard
  \<open>response.status === 200 && response.data.results\<close> (App.jsx, lines 27, 63,
  92, 129); the search continuation also compares \<open>results.length === 0\<close>
  (line 93). A JSON value here is \<open>null\<close>, a boolean, a number, a string, an
  array or an object (a list of key--value pairs, as \<open>JSON.parse\<close> reads
  them); arrays carry the decoded records the component reads, and numbers are
  integers, since the component only ever tests a number for being zero.
  \<open>decode\<close> maps a body onto the outcome type \<open>axios_result\<close> the handler
  theories take; it is undefined exactly on a truthy \<open>results\<close> field that is
  not an array, which the handlers store as the list (ResponseBody.thy).
\<close>

datatype 'a json =
    JNull
  | JBool bool
  | JNum int
  | JStr string
  | JArr "'a list"
  | JObj "(string \<times> 'a json) list"

text \<open>JavaScript truthiness of a JSON value: \<open>null\<close>, \<open>false\<close>, \<open>0\<close> and
  \<open>""\<close> are falsy; every array and object, even empty, is truthy.\<close>

fun json_truthy :: "'a json \<Rightarrow> bool" where
  "json_truthy JNull = False"
| "json_truthy (JBool b) = b"
| "json_truthy (JNum n) = (n \<noteq> 0)"
| "json_truthy (JStr s) = (s \<noteq> [])"
| "json_truthy (JArr xs) = True"
| "json_truthy (JObj kvs) = True"

text \<open>
  \<open>v.length === 0\<close> for a value that is not \<open>null\<close>: the length of an array or
  a string, the \<open>length\<close> property of an object (\<open>JSON.parse\<close> keeps the last
  of duplicate keys), \<open>undefined\<close> for booleans and numbers.
\<close>

fun json_length_zero :: "'a json \<Rightarrow> bool" where
  "json_length_zero (JArr xs) = (xs = [])"
| "json_length_zero (JStr s) = (s = [])"
| "json_length_zero (JObj kvs) = (map_of (rev kvs) ''length'' = Some (JNum 0))"
| "json_length_zero _ = False"

text \<open>
  \<open>response.data\<close>: the JSON value \<open>null\<close>, an object with its \<open>results\<close>
  field (\<open>None\<close> when absent), or the text of a body that is not JSON. Reading
  \<open>.results\<close> of a string (as of a JSON number, boolean or array at top level)
  gives \<open>undefined\<close>.
\<close>

datatype 'a json_body =
    JsonNull
  | JsonObject "'a json option"
  | JsonText string

datatype 'a raw_result =
    RawResponse int "'a json_body"
  | RawError "int option"

text \<open>
  The value of \<open>response.status === 200 && response.data.results\<close>: it throws a
  \<open>TypeError\<close> (reading a property of \<open>null\<close>), is falsy, or is the truthy
  \<open>results\<close> value; \<open>&&\<close> short-circuits on any status but 200.
\<close>

datatype 'a guard = GuardThrows | GuardFalsy | GuardTruthy "'a json"

definition eval_guard :: "int \<Rightarrow> 'a json_body \<Rightarrow> 'a guard" where
  "eval_guard status body =
     (if status \<noteq> 200 then GuardFalsy
      else (case body of
              JsonNull \<Rightarrow> GuardThrows
            | JsonObject None \<Rightarrow> GuardFalsy
            | JsonObject (Some v) \<Rightarrow> (if json_truthy v then GuardTruthy v else GuardFalsy)
            | JsonText _ \<Rightarrow> GuardFalsy))"

text \<open>
  The outcome a raw response stands for at the level of \<open>axios_result\<close>: a
  thrown guard is a rejection without a response (what the \<open>catch\<close> blocks
  see), a falsy guard a response without results, an array the results.
\<close>

fun decode :: "'a raw_result \<Rightarrow> 'a axios_result option" where
  "decode (RawError resp) = Some (Rejected resp)"
| "decode (RawResponse status body) =
     (case eval_guard status body of
        GuardThrows \<Rightarrow> Some (Rejected None)
      | GuardFalsy \<Rightarrow> Some (Resolved status None)
      | GuardTruthy (JArr xs) \<Rightarrow> Some (Resolved status (Some xs))
      | GuardTruthy _ \<Rightarrow> None)"

text \<open>The server's well-formed answer for an outcome: results as a JSON array.\<close>

fun encode :: "'a axios_result \<Rightarrow> 'a raw_result" where
  "encode (Resolved status results) = RawResponse status (JsonObject (map_option JArr results))"
| "encode (Rejected resp) = RawError resp"

fun is_array :: "'a json \<Rightarrow> bool" where
  "is_array (JArr xs) = True"
| "is_array _ = False"

lemmas guard_splits = guard.splits json.splits json_body.splits option.splits

lemma eval_guard_not_200 [simp]: "status \<noteq> 200 \<Longrightarrow> eval_guard status body = GuardFalsy"
  by (simp add: eval_guard_def)

lemma eval_guard_200 [simp]:
  "eval_guard 200 JsonNull = GuardThrows"
  "eval_guard 200 (JsonObject None) = GuardFalsy"
  "eval_guard 200 (JsonObject (Some v)) = (if json_truthy v then GuardTruthy v else GuardFalsy)"
  "eval_guard 200 (JsonText s) = GuardFalsy"
  by (simp_all add: eval_guard_def)

lemma eval_guard_truthy:
  "eval_guard status body = GuardTruthy v \<longleftrightarrow>
     status = 200 \<and> body = JsonObject (Some v) \<and> json_truthy v"
  by (auto simp: eval_guard_def split: json_body.splits option.splits if_splits)

lemma decode_None:
  "decode raw = None \<longleftrightarrow>
     (\<exists>v. raw = RawResponse 200 (JsonObject (Some v)) \<and> json_truthy v \<and> \<not> is_array v)"
proof (cases raw)
  case (RawResponse status body)
  then show ?thesis
    by (cases "eval_guard status body")
       (auto simp: eval_guard_truthy split: json.splits elim: is_array.elims)
qed simp

lemma decode_encode:
  "decode (encode res) =
     Some (case res of Resolved status results \<Rightarrow> Resolved status (ok_results status results)
           | Rejected resp \<Rightarrow> Rejected resp)"
  by (cases res) (auto simp: eval_guard_def ok_results_def split: option.splits)

end
