(* ===== verification/ResponseBody.thy ===== *)
theory ResponseBody
  imports Json SearchController DetailResolver
begin

text \<open>
  The four continuations on the raw body of a response (App.jsx, lines 27--44,
  63--78, 92--113 and 129--152), with the guard evaluated on JSON values
  (Json.thy). Two behaviours lie outside the outcome type the handler theories
  take. A truthy \<open>results\<close> field that is not an array passes the guard, and
  the list fetches store it with \<open>setMovies\<close>; the next render then calls
  \<open>movies.map\<close> on it (line 174), which throws a \<open>TypeError\<close> outside any
  \<open>try\<close>; the component has no error boundary, so React removes the whole tree
  and the page is blank (\<open>Blank\<close>). The trailer lookup calls
  \<open>results.find\<close> on such a value, which throws inside its \<open>try\<close>; the
  \<open>catch\<close> only logs. On every other body each continuation does what its
  counterpart on \<open>decode\<close>'s outcome does.
\<close>

datatype 'a page = Live 'a | Blank

text \<open>\<open>setMovies(v)\<close> followed by the render of \<open>movies.map\<close>.\<close>

fun set_movies :: "movie json \<Rightarrow> app_state \<Rightarrow> app_state page" where
  "set_movies (JArr ms) st = Live (st\<lparr>movies := ms\<rparr>)"
| "set_movies _ st = Blank"

definition fetchMovies_settle_raw :: "movie raw_result \<Rightarrow> app_state \<Rightarrow> app_state page" where
  "fetchMovies_settle_raw raw st =
     map_page (\<lambda>s. s\<lparr>loading := False\<rparr>)
       (case raw of
          RawResponse status body \<Rightarrow>
            (case eval_guard status body of
               GuardTruthy v \<Rightarrow> map_page (\<lambda>s. s\<lparr>errorMessage := []\<rparr>) (set_movies v st)
             | GuardFalsy \<Rightarrow> Live (st\<lparr>errorMessage := msg_no_movies\<rparr>)
             | GuardThrows \<Rightarrow> Live (st\<lparr>errorMessage := classify_error None\<rparr>))
        | RawError resp \<Rightarrow> Live (st\<lparr>errorMessage := classify_error resp\<rparr>))"

definition reload_settle_raw :: "movie raw_result \<Rightarrow> app_state \<Rightarrow> app_state page" where
  "reload_settle_raw raw st =
     map_page (\<lambda>s. s\<lparr>loading := False\<rparr>)
       (case raw of
          RawResponse status body \<Rightarrow>
            (case eval_guard status body of
               GuardTruthy v \<Rightarrow> map_page (\<lambda>s. s\<lparr>errorMessage := []\<rparr>) (set_movies v st)
             | GuardFalsy \<Rightarrow> Live st
             | GuardThrows \<Rightarrow> Live (st\<lparr>errorMessage := classify_error None\<rparr>))
        | RawError resp \<Rightarrow> Live (st\<lparr>errorMessage := classify_error resp\<rparr>))"

definition search_settle_raw :: "movie raw_result \<Rightarrow> app_state \<Rightarrow> app_state page" where
  "search_settle_raw raw st =
     map_page (\<lambda>s. s\<lparr>loading := False\<rparr>)
       (case raw of
          RawResponse status body \<Rightarrow>
            (case eval_guard status body of
               GuardTruthy v \<Rightarrow>
                 if json_length_zero v then Live (st\<lparr>errorMessage := msg_no_movies\<rparr>)
                 else map_page (\<lambda>s. s\<lparr>errorMessage := []\<rparr>) (set_movies v st)
             | GuardFalsy \<Rightarrow> Live (st\<lparr>errorMessage := msg_no_movies\<rparr>)
             | GuardThrows \<Rightarrow> Live (st\<lparr>errorMessage := classify_error None\<rparr>))
        | RawError resp \<Rightarrow> Live (st\<lparr>errorMessage := classify_error resp\<rparr>))"

definition videos_settle_raw :: "video raw_result \<Rightarrow> app_state \<Rightarrow> app_state" where
  "videos_settle_raw raw st =
     (case raw of
        RawResponse status body \<Rightarrow>
          (case eval_guard status body of
             GuardTruthy (JArr vs) \<Rightarrow>
               st\<lparr>selectedMovie :=
                    set_trailer (case find_trailer vs of
                                   Some t \<Rightarrow> Str (youtubeUrl @ key t)
                                 | None \<Rightarrow> Null) (selectedMovie st)\<rparr>
           | GuardTruthy _ \<Rightarrow> st
           | GuardFalsy \<Rightarrow> st\<lparr>selectedMovie := set_trailer Null (selectedMovie st)\<rparr>
           | GuardThrows \<Rightarrow> st)
      | RawError _ \<Rightarrow> st)"

lemmas raw_settle_defs =
  fetchMovies_settle_raw_def reload_settle_raw_def search_settle_raw_def videos_settle_raw_def

subsection \<open>Agreement with the continuations on decoded outcomes\<close>

lemma decode_Some_cases:
  assumes "decode raw = Some res"
  obtains (Error) resp where "raw = RawError resp" "res = Rejected resp"
  | (Throws) status body where "raw = RawResponse status body" "eval_guard status body = GuardThrows"
      "res = Rejected None"
  | (Falsy) status body where "raw = RawResponse status body" "eval_guard status body = GuardFalsy"
      "res = Resolved status None"
  | (Array) status body xs where "raw = RawResponse status body"
      "eval_guard status body = GuardTruthy (JArr xs)" "res = Resolved status (Some xs)"
  using assms
  by (cases raw; auto split: guard.splits json.splits)

lemma guard_truthy_200:
  "eval_guard status body = GuardTruthy v \<Longrightarrow> status = 200"
  by (simp add: eval_guard_truthy)

lemma raw_settle_decode:
  assumes "decode raw = Some res"
  shows "fetchMovies_settle_raw raw st = Live (fetchMovies_settle res st)"
    and "reload_settle_raw raw st = Live (reload_settle res st)"
    and "search_settle_raw raw st = Live (search_settle res st)"
  using assms
  by (cases rule: decode_Some_cases;
      force simp: raw_settle_defs handler_simps trailer_of_def ok_results_def
            dest: guard_truthy_200)+

lemma videos_settle_raw_decode:
  assumes "decode raw = Some res"
  shows "videos_settle_raw raw st = videos_settle res st"
  using assms
  by (cases rule: decode_Some_cases;
      force simp: raw_settle_defs handler_simps trailer_of_def ok_results_def
            dest: guard_truthy_200)

lemma ok_results_idem [simp]: "ok_results s (ok_results s r) = ok_results s r"
  by (simp add: ok_results_def)

lemma raw_settle_encode:
  "fetchMovies_settle_raw (encode res) st = Live (fetchMovies_settle res st)"
  "reload_settle_raw (encode res) st = Live (reload_settle res st)"
  "search_settle_raw (encode res) st = Live (search_settle res st)"
  by (simp_all add: raw_settle_decode [OF decode_encode])
     (simp_all add: handler_simps split: axios_result.splits)

lemma videos_settle_raw_encode: "videos_settle_raw (encode res) st = videos_settle res st"
  by (simp add: videos_settle_raw_decode [OF decode_encode] handler_simps trailer_of_def
           split: axios_result.splits)

subsection \<open>Results that are not arrays\<close>

lemma set_movies_non_array [simp]: "\<not> is_array v \<Longrightarrow> set_movies v st = Blank"
  by (cases v) simp_all

lemma list_settle_raw_non_array:
  assumes "json_truthy v" and "\<not> is_array v"
  shows "fetchMovies_settle_raw (RawResponse 200 (JsonObject (Some v))) st = Blank"
    and "reload_settle_raw (RawResponse 200 (JsonObject (Some v))) st = Blank"
    and "search_settle_raw (RawResponse 200 (JsonObject (Some v))) st =
           (if json_length_zero v then Live (st\<lparr>errorMessage := msg_no_movies, loading := False\<rparr>)
            else Blank)"
  using assms by (simp_all add: raw_settle_defs)

lemma videos_settle_raw_non_array:
  "json_truthy v \<Longrightarrow> \<not> is_array v \<Longrightarrow>
   videos_settle_raw (RawResponse 200 (JsonObject (Some v))) st = st"
  by (cases v) (simp_all add: videos_settle_raw_def)

text \<open>
  Every state a raw continuation leaves the page in is one its counterpart
  reaches on some outcome.
\<close>

lemma list_settle_raw_Live:
  shows "fetchMovies_settle_raw raw st = Live st' \<Longrightarrow> \<exists>res. st' = fetchMovies_settle res st"
    and "reload_settle_raw raw st = Live st' \<Longrightarrow> \<exists>res. st' = reload_settle res st"
    and "search_settle_raw raw st = Live st' \<Longrightarrow> \<exists>res. st' = search_settle res st"
proof -
  consider res where "decode raw = Some res"
    | v where "raw = RawResponse 200 (JsonObject (Some v))" "json_truthy v" "\<not> is_array v"
    using decode_None by (cases "decode raw") blast+
  note cases = this
  show "fetchMovies_settle_raw raw st = Live st' \<Longrightarrow> \<exists>res. st' = fetchMovies_settle res st"
    by (cases rule: cases) (auto simp: raw_settle_decode list_settle_raw_non_array)
  show "reload_settle_raw raw st = Live st' \<Longrightarrow> \<exists>res. st' = reload_settle res st"
    by (cases rule: cases) (auto simp: raw_settle_decode list_settle_raw_non_array)
  show "search_settle_raw raw st = Live st' \<Longrightarrow> \<exists>res. st' = search_settle res st"
  proof (cases rule: cases)
    case (2 v)
    moreover assume "search_settle_raw raw st = Live st'"
    ultimately have "st' = search_settle (Resolved 200 None) st"
      by (simp add: list_settle_raw_non_array handler_simps split: if_splits)
    then show ?thesis by blast
  qed (auto simp: raw_settle_decode)
qed

lemma list_settle_raw_Blank:
  assumes "fetchMovies_settle_raw raw st = Blank \<or> reload_settle_raw raw st = Blank \<or>
           search_settle_raw raw st = Blank"
  shows "\<exists>v. raw = RawResponse 200 (JsonObject (Some v)) \<and> json_truthy v \<and> \<not> is_array v"
proof (cases "decode raw")
  case (Some res)
  with assms show ?thesis by (simp add: raw_settle_decode)
qed (simp add: decode_None)

lemma videos_settle_raw_outcome: "\<exists>res. videos_settle_raw raw st = videos_settle res st"
proof (cases "decode raw")
  case None
  then obtain v where "raw = RawResponse 200 (JsonObject (Some v))" "json_truthy v" "\<not> is_array v"
    using decode_None by blast
  then have "videos_settle_raw raw st = videos_settle (Rejected None) st"
    by (simp add: videos_settle_raw_non_array handler_simps)
  then show ?thesis by blast
qed (auto intro: videos_settle_raw_decode)

subsection \<open>Error behaviour on malformed bodies\<close>

text \<open>
  C40: a 200 response whose body is \<open>null\<close> is reported by every list fetch as
  ``Network error: Please check your connection.'' although a response
  arrived (specification, section 7: the network class is ``no response
  object''), and the trailer lookup ignores it; with any other status the same
  body gives ``No movies found.'' (Catalog Loader and search), nothing (the
  empty-query reload) and the \<open>null\<close> trailer marker.
\<close>

theorem null_body_reported_as_network_error:
  assumes "status \<noteq> 200"
  shows "fetchMovies_settle_raw (RawResponse 200 JsonNull) st
           = Live (st\<lparr>errorMessage := msg_network, loading := False\<rparr>) \<and>
         reload_settle_raw (RawResponse 200 JsonNull) st
           = Live (st\<lparr>errorMessage := msg_network, loading := False\<rparr>) \<and>
         search_settle_raw (RawResponse 200 JsonNull) st
           = Live (st\<lparr>errorMessage := msg_network, loading := False\<rparr>) \<and>
         videos_settle_raw (RawResponse 200 JsonNull) st = st \<and>
         fetchMovies_settle_raw (RawResponse status JsonNull) st
           = Live (st\<lparr>errorMessage := msg_no_movies, loading := False\<rparr>) \<and>
         search_settle_raw (RawResponse status JsonNull) st
           = Live (st\<lparr>errorMessage := msg_no_movies, loading := False\<rparr>) \<and>
         reload_settle_raw (RawResponse status JsonNull) st = Live (st\<lparr>loading := False\<rparr>) \<and>
         videos_settle_raw (RawResponse status JsonNull) st
           = st\<lparr>selectedMovie := set_trailer Null (selectedMovie st)\<rparr>"
  using assms by (simp add: raw_settle_defs)

lemma null_body_reported_as_network_error_witness:
  "fetchMovies_settle_raw (RawResponse 200 JsonNull) app_init
     = Live (app_init\<lparr>errorMessage := msg_network, loading := False\<rparr>) \<and>
   search_settle_raw (RawResponse 503 JsonNull) app_init
     = Live (app_init\<lparr>errorMessage := msg_no_movies, loading := False\<rparr>)"
  using null_body_reported_as_network_error [of 503 app_init] by simp

text \<open>
  C9: a body that is not JSON (axios keeps its text) is never classified as an
  error: at any status the Catalog Loader and the search show ``No movies
  found.'', the empty-query reload shows nothing, and the trailer lookup sets
  the \<open>null\<close> marker. The specification (section 7) collapses malformed JSON
  into ``An unexpected error occurred.''.
\<close>

theorem unparsed_body_not_classified:
  "fetchMovies_settle_raw (RawResponse status (JsonText s)) st
     = Live (st\<lparr>errorMessage := msg_no_movies, loading := False\<rparr>) \<and>
   search_settle_raw (RawResponse status (JsonText s)) st
     = Live (st\<lparr>errorMessage := msg_no_movies, loading := False\<rparr>) \<and>
   reload_settle_raw (RawResponse status (JsonText s)) st = Live (st\<lparr>loading := False\<rparr>) \<and>
   videos_settle_raw (RawResponse status (JsonText s)) st
     = st\<lparr>selectedMovie := set_trailer Null (selectedMovie st)\<rparr>"
  by (cases "status = 200") (simp_all add: raw_settle_defs)

text \<open>
  C13: a trailer lookup that is rejected, that reads a \<open>null\<close> body, or whose
  results field is truthy but not an array (\<open>results.find\<close> throws) changes
  no state: the error is only logged, and the movie just clicked keeps an
  undefined \<open>trailerUrl\<close>, where the specification (section 8) requires the
  explicit \<open>null\<close> marker whenever no trailer is found.
\<close>

theorem trailer_lookup_failure_leaves_undefined:
  assumes "json_truthy v" and "\<not> is_array v"
  shows "videos_settle_raw (RawError e) st = st \<and>
         videos_settle_raw (RawResponse 200 JsonNull) st = st \<and>
         videos_settle_raw (RawResponse 200 (JsonObject (Some v))) st = st \<and>
         selectedMovie (videos_settle_raw (RawResponse 200 (JsonObject (Some v)))
                          (handleMovieClick m st))
           = Some \<lparr>sel_movie = Some m, trailerUrl = Undef\<rparr>"
  using assms by (simp add: videos_settle_raw_non_array) (simp add: videos_settle_raw_def)

lemma trailer_lookup_failure_leaves_undefined_witness:
  "videos_settle_raw (RawResponse 200 (JsonObject (Some (JObj [])))) app_init = app_init \<and>
   selectedMovie (videos_settle_raw (RawResponse 200 (JsonObject (Some (JObj []))))
                    (handleMovieClick \<lparr>movie_id = 42, title = ''Dune'', poster_path = None,
                                       release_date = ''2021'', overview = ''''\<rparr> app_init))
     = Some \<lparr>sel_movie = Some \<lparr>movie_id = 42, title = ''Dune'', poster_path = None,
                               release_date = ''2021'', overview = ''''\<rparr>, trailerUrl = Undef\<rparr>"
  using trailer_lookup_failure_leaves_undefined
          [of "JObj []" None app_init
              "\<lparr>movie_id = 42, title = ''Dune'', poster_path = None,
                release_date = ''2021'', overview = ''''\<rparr>"]
  by simp

end
