(* ===== verification/PageLoop.thy ===== *)
theory PageLoop
  imports EventLoop ResponseBody
begin

text \<open>
  The event loop of EventLoop.thy with responses delivered as raw bodies
  (ResponseBody.thy) and the page that React shows: \<open>Live\<close> with the
  component's state, or \<open>Blank\<close> once a render has thrown and React has
  removed the tree. On a blank page no user event can occur; continuations
  still pending run to completion and their state updates are ignored, so the
  page stays blank. The live states of this loop are exactly the reachable
  states of EventLoop.thy: a raw body either acts as the outcome \<open>decode\<close>
  gives it or blanks the page, and every outcome is the action of a raw body
  (\<open>encode\<close>).
\<close>

datatype raw_event =
    RInputChange string
  | RMovieClick movie
  | RCloseClick
  | RSettleMovies nat "movie raw_result"
  | RSettleVideos nat "video raw_result"

fun settle_list_raw :: "pending \<Rightarrow> movie raw_result \<Rightarrow> app_state \<Rightarrow> app_state page option" where
  "settle_list_raw PopularLoad raw st = Some (fetchMovies_settle_raw raw st)"
| "settle_list_raw PopularReload raw st = Some (reload_settle_raw raw st)"
| "settle_list_raw (SearchLoad q) raw st = Some (search_settle_raw raw st)"
| "settle_list_raw VideosLoad raw st = None"

fun page_step :: "app_state page \<Rightarrow> raw_event \<Rightarrow> app_state page option" where
  "page_step (Live st) (RInputChange q) = Some (Live (handleSearchChange q st))"
| "page_step (Live st) (RMovieClick m) =
     (if m \<in> set (movies st) then Some (Live (handleMovieClick m st)) else None)"
| "page_step (Live st) RCloseClick =
     (if selectedMovie st \<noteq> None then Some (Live (closeModal st)) else None)"
| "page_step (Live st) (RSettleMovies i raw) =
     (if i < length (inflight st) then settle_list_raw (fst (inflight st ! i)) raw (resume i st)
      else None)"
| "page_step (Live st) (RSettleVideos i raw) =
     (if i < length (inflight st) \<and> fst (inflight st ! i) = VideosLoad
      then Some (Live (videos_settle_raw raw (resume i st))) else None)"
| "page_step Blank (RSettleMovies i raw) = Some Blank"
| "page_step Blank (RSettleVideos i raw) = Some Blank"
| "page_step Blank _ = None"

fun page_run :: "app_state page \<Rightarrow> raw_event list \<Rightarrow> app_state page option" where
  "page_run p [] = Some p"
| "page_run p (e # es) = (case page_step p e of None \<Rightarrow> None | Some p' \<Rightarrow> page_run p' es)"

inductive page_reachable :: "app_state page \<Rightarrow> bool" where
  start: "page_reachable (Live app_start)"
| step: "page_reachable p \<Longrightarrow> page_step p e = Some p' \<Longrightarrow> page_reachable p'"

subsection \<open>Simulation in both directions\<close>

lemma settle_list_raw_Live:
  assumes "settle_list_raw k raw st = Some (Live st')"
  shows "\<exists>res. settle_list k res st = Some st'"
  using assms by (cases k) (auto dest!: list_settle_raw_Live)

lemma page_step_simulated:
  assumes "page_step (Live st) e = Some (Live st')"
  shows "\<exists>e'. app_step st e' = Some st'"
proof (cases e)
  case (RInputChange q)
  with assms have "app_step st (InputChange q) = Some st'" by simp
  then show ?thesis by blast
next
  case (RMovieClick m)
  with assms have "app_step st (MovieClick m) = Some st'" by (simp split: if_splits)
  then show ?thesis by blast
next
  case RCloseClick
  with assms have "app_step st CloseClick = Some st'" by (simp split: if_splits)
  then show ?thesis by blast
next
  case (RSettleMovies i raw)
  with assms have i: "i < length (inflight st)"
    and "settle_list_raw (fst (inflight st ! i)) raw (resume i st) = Some (Live st')"
    by (simp_all split: if_splits)
  then obtain res where "settle_list (fst (inflight st ! i)) res (resume i st) = Some st'"
    using settle_list_raw_Live by blast
  with i have "app_step st (SettleMovies i res) = Some st'" by simp
  then show ?thesis by blast
next
  case (RSettleVideos i raw)
  obtain res where "videos_settle_raw raw (resume i st) = videos_settle res (resume i st)"
    using videos_settle_raw_outcome by blast
  with assms RSettleVideos have "app_step st (SettleVideos i res) = Some st'"
    by (auto split: if_splits)
  then show ?thesis by blast
qed

lemma settle_list_encode:
  "settle_list k res st = Some st' \<Longrightarrow> settle_list_raw k (encode res) st = Some (Live st')"
  by (cases k) (auto simp: raw_settle_encode)

lemma app_step_simulated:
  assumes "app_step st e = Some st'"
  shows "\<exists>e'. page_step (Live st) e' = Some (Live st')"
proof (cases e)
  case (InputChange q)
  with assms have "page_step (Live st) (RInputChange q) = Some (Live st')" by simp
  then show ?thesis by blast
next
  case (MovieClick m)
  with assms have "page_step (Live st) (RMovieClick m) = Some (Live st')" by (simp split: if_splits)
  then show ?thesis by blast
next
  case CloseClick
  with assms have "page_step (Live st) RCloseClick = Some (Live st')" by (simp split: if_splits)
  then show ?thesis by blast
next
  case (SettleMovies i res)
  with assms have "page_step (Live st) (RSettleMovies i (encode res)) = Some (Live st')"
    by (simp add: settle_list_encode split: if_splits)
  then show ?thesis by blast
next
  case (SettleVideos i res)
  with assms have "page_step (Live st) (RSettleVideos i (encode res)) = Some (Live st')"
    by (simp add: videos_settle_raw_encode split: if_splits)
  then show ?thesis by blast
qed

lemma page_step_Blank: "page_step Blank e = Some p \<Longrightarrow> p = Blank"
  by (cases e) auto

lemma page_reachable_Live_reachable: "page_reachable p \<Longrightarrow> p = Live st \<Longrightarrow> reachable st"
proof (induction p arbitrary: st rule: page_reachable.induct)
  case start
  then show ?case by (simp add: reachable.start)
next
  case (step p e p')
  show ?case
  proof (cases p)
    case (Live s)
    with step obtain e' where "app_step s e' = Some st" using page_step_simulated by blast
    with step Live show ?thesis by (blast intro: reachable.step)
  next
    case Blank
    with step show ?thesis using page_step_Blank by blast
  qed
qed

lemma reachable_page_reachable: "reachable st \<Longrightarrow> page_reachable (Live st)"
proof (induction rule: reachable.induct)
  case start
  then show ?case by (rule page_reachable.start)
next
  case (step st e st')
  then obtain e' where "page_step (Live st) e' = Some (Live st')" using app_step_simulated by blast
  with step.IH show ?case by (rule page_reachable.step)
qed

lemma page_run_Blank: "page_run Blank es = Some p \<Longrightarrow> p = Blank"
proof (induction es)
  case (Cons e es)
  then show ?case using page_step_Blank by (auto split: option.splits)
qed simp

subsection \<open>Properties\<close>

text \<open>
  At the level of raw bodies the component has exactly the live states of the
  event loop over outcomes, so every invariant proved of \<open>reachable\<close> states
  holds of every page that is still shown.
\<close>

lemma page_reachable_iff: "page_reachable (Live st) \<longleftrightarrow> reachable st"
  using page_reachable_Live_reachable reachable_page_reachable by blast



text \<open>
  C22: when a list request in flight is answered with status 200 and a truthy
  \<open>results\<close> field that is not an array (an object, a non-empty string, a
  non-zero number, \<open>true\<close>), the component stores it as the list and its next
  render throws at \<open>movies.map\<close>: the page goes blank, and no later event
  brings it back. The only exception is a search answered by a value whose
  \<open>length\<close> is \<open>0\<close>. The specification (section 7) expects malformed input to
  be shown as ``An unexpected error occurred.''.
\<close>

theorem non_array_results_blank_page:
  assumes "i < length (inflight st)" and "is_list_load (fst (inflight st ! i))"
    and "json_truthy v" and "\<not> is_array v" and "\<not> json_length_zero v"
    and "page_run Blank es = Some p"
  shows "page_step (Live st) (RSettleMovies i (RawResponse 200 (JsonObject (Some v)))) = Some Blank
         \<and> p = Blank"
proof -
  have "settle_list_raw k (RawResponse 200 (JsonObject (Some v))) st' = Some Blank"
    if "is_list_load k" for k st'
    using that assms(3-5) by (cases k) (simp_all add: list_settle_raw_non_array)
  with assms show ?thesis by (simp add: page_run_Blank)
qed

lemma non_array_results_blank_page_witness:
  "page_step (Live app_start) (RSettleMovies 0 (RawResponse 200 (JsonObject (Some (JObj []))))) =
     Some Blank \<and>
   page_run Blank [RSettleVideos 0 (RawError None)] = Some Blank"
  using non_array_results_blank_page
          [of 0 app_start "JObj []" "[RSettleVideos 0 (RawError None)]" Blank]
  by (simp add: app_start_fields)

end
