(* ===== verification/Spec2Isabelle.thy ===== *)
theory Spec2Isabelle
  imports Runs PageLoop
begin

text \<open>
  \<^bold>\<open>A verified model of the movie discovery client\<close>
  (src/screen-gem/src/App.jsx, the single React component \<open>App\<close>).

  \<^bold>\<open>The program.\<close> One component keeps five pieces of state (\<open>movies\<close>,
  \<open>selectedMovie\<close>, \<open>searchQuery\<close>, \<open>errorMessage\<close>, \<open>loading\<close>; lines 5--9)
  and three asynchronous flows write them: the Catalog Loader (\<open>fetchMovies\<close>
  in the mount effect, lines 16--48), the Search Controller
  (\<open>handleSearchChange\<close>, lines 49--114) and the Detail Resolver
  (\<open>handleMovieClick\<close>, lines 116--153, and the Close button, line 215).
  Each flow runs synchronously up to its \<open>await axios.get\<close> and resumes when
  the request settles; the view (lines 155--223) reads the state.

  \<^bold>\<open>The theories.\<close>
  \<^item> \<open>Prelude\<close>: JavaScript string-valued properties (\<open>js_str\<close>: absent,
    \<open>null\<close> or a string) with template-literal, JSX-text and truthiness
    readings; removal of the \<open>i\<close>-th list element (\<open>drop_at\<close>); shared list
    lemmas and the first-match characterisation of \<open>List.find\<close>.
  \<^item> \<open>Api\<close>: the movie and video records the server returns, the three requests
    (\<open>popular_request\<close>, \<open>search_request\<close>, \<open>videos_request\<close>, lines 11--14,
    20--26, 84--91, 120--128), the outcome of a request (\<open>axios_result\<close>:
    resolved with a status and an optional results field, or rejected with an
    optional response status), the guard \<open>status === 200 && results\<close>
    (\<open>ok_results\<close>) and the shared \<open>catch\<close> classification
    (\<open>classify_error\<close>).
  \<^item> \<open>AppState\<close>: the state record \<open>app_state\<close>; besides the five fields of the
    source it holds \<open>inflight\<close>, the suspended continuations with the request
    each awaits, which the JavaScript runtime keeps.
  \<^item> \<open>FetchContract\<close>: the abstract contract of a list fetch from the
    specification (\<open>list_fetch_spec\<close>, \<open>apply_effect\<close>).
  \<^item> \<open>CatalogLoader\<close>, \<open>SearchController\<close>, \<open>DetailResolver\<close>: each handler
    as two functions, the part before the \<open>await\<close> (\<open>fetchMovies_start\<close>,
    \<open>handleSearchChange\<close>, \<open>handleMovieClick\<close>) and its continuation
    (\<open>fetchMovies_settle\<close>, \<open>reload_settle\<close>, \<open>search_settle\<close>,
    \<open>videos_settle\<close>), every \<open>if\<close>, \<open>else\<close>, \<open>catch\<close> and \<open>finally\<close> of
    the source a branch of the model.
  \<^item> \<open>EventLoop\<close>: the events (typing, clicking a displayed movie, Close, and
    the settlement of any in-flight request, in any order), the step function
    \<open>app_step\<close> (\<open>None\<close> for an event that cannot occur), runs over event
    lists and the inductive set of reachable states from \<open>app_start\<close>, the
    state after the mount effect.
  \<^item> \<open>Render\<close>: the view as a function of the state.
  \<^item> \<open>Runs\<close>: counting over whole runs: requests sent and settled, quiescence
    without user input, and the typed query's round trip.
  \<^item> \<open>Json\<close>: the body of a response as JSON values (\<open>null\<close>, booleans,
    numbers, strings, arrays, objects, or the text axios keeps when the body is
    not JSON), JavaScript truthiness, the guard
    \<open>response.status === 200 && response.data.results\<close> as a value that throws,
    is falsy or is the truthy results (\<open>eval_guard\<close>), and \<open>decode\<close>, the
    outcome a raw body stands for.
  \<^item> \<open>ResponseBody\<close>: the four continuations on raw bodies
    (\<open>fetchMovies_settle_raw\<close>, \<open>reload_settle_raw\<close>, \<open>search_settle_raw\<close>,
    \<open>videos_settle_raw\<close>) and the page React shows (\<open>Live\<close> or \<open>Blank\<close>
    after a render error); on every body \<open>decode\<close> maps they act as the
    continuations of the handler theories on that outcome
    (\<open>raw_settle_decode\<close>), and every outcome is the action of a body
    (\<open>raw_settle_encode\<close>).
  \<^item> \<open>PageLoop\<close>: the event loop over raw bodies and pages (\<open>page_step\<close>,
    \<open>page_reachable\<close>), simulated by the event loop of \<open>EventLoop\<close> and
    simulating it.

  \<^bold>\<open>What is proved.\<close> Per handler, its effect on every branch, errors
  included (C3, C4, C6--C8, C11, C12, C16, C17), and on raw bodies (C9, C13,
  C40); the search continuation
  refines the specification's fetch contract on every outcome (C4), the Catalog
  Loader on every outcome but a 200 with an empty array (C3); the trailer found
  is the first YouTube trailer in the server's order (C10); the Detail Resolver
  never touches the list, the error or the loading flag (C14). Over all
  reachable states: the error message is one of the source's fixed strings (C1),
  the loading flag is only up while a list request is in flight (C2), a
  selection without movie fields always carries a resolved trailer field (C31),
  every in-flight request is the one its handler sends (C34) and the mount
  request is issued once (C35); a settling list request replaces the list
  wholesale or keeps it and never touches the selection (C33); only a list
  settlement changes the error message (C37); the player only ever embeds a
  YouTube watch address (C39). Progress: from every reachable state, whatever
  the server answers, settling the requests in flight is a run that ends with
  nothing pending and the loading flag down (C38). Over whole runs: each event
  sends at most one request and every request is settled at most once (C23);
  without user input a run lasts at most as many steps as there are requests in
  flight (C24); the typed query is shown and sent unchanged whatever settles
  afterwards (C5). At the level of raw bodies the live states are exactly the
  reachable states (\<open>page_reachable_iff\<close>), so every invariant above holds
  of every page still shown; a single list response whose results field is a
  truthy non-array blanks the page for good (C22), and no other event ever
  does (C32).
  Across components: clearing the query yields the same list as the initial
  catalog fetch (C18) and the scenarios of the specification's section 8
  (C28--C30); what the view shows (C25, C26).

  \<^bold>\<open>Findings.\<close> The trailer request never carries the movie identifier (the
  URL is in single quotes, C15); the Catalog Loader shows an empty list instead
  of ``No movies found.'' for an empty array (C17); the empty-query branch
  reports nothing for a response without results (C16); the loading flag drops
  when either of two overlapping list requests settles (C21); a stale search
  response overwrites the list (C20); a trailer lookup that settles after Close
  reopens an empty dialog (C19); a trailer lookup writes into the movie
  selected when it settles, not the one clicked (C36); a 200 response with a
  \<open>null\<close> body is reported as a network error (C40); a body that is not JSON is
  reported as ``No movies found.'' or not at all, never as the unexpected error
  the specification names for malformed input (C9); a failed or malformed
  trailer lookup leaves \<open>trailerUrl\<close> undefined where the specification asks
  for the \<open>null\<close> marker (C13); a truthy \<open>results\<close> field that is not an
  array is stored as the list and the next render throws, blanking the page
  (C22); a \<open>null\<close> poster path is rendered as \<open>.../w500null\<close> (C27).

  \<^bold>\<open>Bounds and termination.\<close> No loop of the source is unbounded: the only
  iteration is \<open>results.find\<close> over a finite list (\<open>find_trailer\<close>, structural
  recursion) and \<open>movies.map\<close> in the view. Runs are finite event lists; no
  fuel is needed; the schedule \<open>drain\<close> settles the in-flight requests in
  exactly as many steps as there are (C38), and no settle-only run is longer
  (C24). HTTP statuses are unbounded integers (JavaScript numbers in
  the range of HTTP statuses are exact).

  \<^bold>\<open>Not modelled.\<close> \<open>console.error\<close> logging (no observable state); the
  static markup and CSS classes; React's rendering and batching (every handler's
  synchronous part and every continuation runs to completion before the next
  event, which holds for a single-threaded runtime); the elements of a results
  array are taken to be movie or video objects (an element that is \<open>null\<close>
  would make the render or the \<open>find\<close> callback throw); JSON numbers are
  integers (the component only tests them for zero); React StrictMode's double
  mount in development (set up outside App.jsx).
\<close>

text \<open>
  C18: clearing the query shows the same list as the initial catalog fetch when
  the server answers both with the same successful response, whatever state the
  component was in.
\<close>

theorem reset_matches_initial_catalog:
  assumes "ok_results status results = Some ms"
  shows "\<exists>st' st0.
           run st [InputChange [], SettleMovies (length (inflight st)) (Resolved status results)] = Some st'
         \<and> run app_start [SettleMovies 0 (Resolved status results)] = Some st0
         \<and> movies st' = ms \<and> movies st0 = ms \<and> errorMessage st' = [] \<and> errorMessage st0 = []"
  using assms
  by (simp add: handleSearchChange_inflight app_start_fields reload_settle_def
                fetchMovies_settle_def resume_def)

lemma reset_matches_initial_catalog_witness:
  "ok_results 200 (Some [\<lparr>movie_id = 5, title = ''Up'', poster_path = Some ''/up.jpg'', release_date = ''2009'', overview = []\<rparr>])
     = Some [\<lparr>movie_id = 5, title = ''Up'', poster_path = Some ''/up.jpg'', release_date = ''2009'', overview = []\<rparr>] \<and>
   (\<exists>st' st0.
      run app_start [InputChange [], SettleMovies 1 (Resolved 200 (Some [\<lparr>movie_id = 5, title = ''Up'', poster_path = Some ''/up.jpg'', release_date = ''2009'', overview = []\<rparr>]))] = Some st'
    \<and> run app_start [SettleMovies 0 (Resolved 200 (Some [\<lparr>movie_id = 5, title = ''Up'', poster_path = Some ''/up.jpg'', release_date = ''2009'', overview = []\<rparr>]))] = Some st0
    \<and> movies st' = [\<lparr>movie_id = 5, title = ''Up'', poster_path = Some ''/up.jpg'', release_date = ''2009'', overview = []\<rparr>]
    \<and> movies st0 = [\<lparr>movie_id = 5, title = ''Up'', poster_path = Some ''/up.jpg'', release_date = ''2009'', overview = []\<rparr>]
    \<and> errorMessage st' = [] \<and> errorMessage st0 = [])"
  using reset_matches_initial_catalog [of 200 "Some [\<lparr>movie_id = 5, title = ''Up'', poster_path = Some ''/up.jpg'', release_date = ''2009'', overview = []\<rparr>]"
      "[\<lparr>movie_id = 5, title = ''Up'', poster_path = Some ''/up.jpg'', release_date = ''2009'', overview = []\<rparr>]" app_start]
  by (simp add: app_start_fields)

text \<open>
  C28 (specification, section 8): typing ``batman'' sends the search request
  with \<open>query = batman\<close>; when it returns two movies, the list shows exactly
  those two, the error is empty and the loading flag is down, from any state.
\<close>

theorem scenario_search_batman:
  "inflight (handleSearchChange ''batman'' st) = inflight st @ [(SearchLoad ''batman'', search_request ''batman'')] \<and>
   (\<exists>st'. run st [InputChange ''batman'', SettleMovies (length (inflight st)) (Resolved 200 (Some [m1, m2]))] = Some st'
          \<and> movies st' = [m1, m2] \<and> errorMessage st' = [] \<and> \<not> loading st' \<and> searchQuery st' = ''batman'')"
  by (simp add: handleSearchChange_inflight search_settle_def resume_def)

text \<open>
  C29 (specification, section 8): when the popular-list request (at mount or
  after the query is cleared) is rejected without a response, the error reads
  exactly ``Network error: Please check your connection.'', the loading flag is
  down and the list is unchanged.
\<close>

theorem scenario_offline:
  assumes "i < length (inflight st)"
      and "fst (inflight st ! i) = PopularLoad \<or> fst (inflight st ! i) = PopularReload"
  shows "\<exists>st'. app_step st (SettleMovies i (Rejected None)) = Some st'
               \<and> errorMessage st' = ''Network error: Please check your connection.''
               \<and> \<not> loading st' \<and> movies st' = movies st"
  using assms
  by (auto simp: fetchMovies_settle_def reload_settle_def msg_network_def)

lemma scenario_offline_witness:
  "0 < length (inflight app_start) \<and>
   (fst (inflight app_start ! 0) = PopularLoad \<or> fst (inflight app_start ! 0) = PopularReload) \<and>
   (\<exists>st'. app_step app_start (SettleMovies 0 (Rejected None)) = Some st'
          \<and> errorMessage st' = ''Network error: Please check your connection.''
          \<and> \<not> loading st' \<and> movies st' = movies app_start)"
proof -
  have h1: "0 < length (inflight app_start)" and
       h2: "fst (inflight app_start ! 0) = PopularLoad \<or> fst (inflight app_start ! 0) = PopularReload"
    by (simp_all add: app_start_fields)
  show ?thesis using h1 h2 scenario_offline [OF h1 h2] by blast
qed

text \<open>
  C30 (specification, section 8): clicking a displayed movie with identifier 42
  and receiving one video \<open>{type: Trailer, site: YouTube, key: abc123}\<close>
  selects the movie with the trailer URL \<open>youtubeUrl @ abc123\<close>.
\<close>

theorem scenario_trailer_42:
  assumes "m \<in> set (movies st)" and "movie_id m = 42"
  shows "\<exists>st'. run st [MovieClick m, SettleVideos (length (inflight st))
                  (Resolved 200 (Some [\<lparr>video_type = ''Trailer'', site = ''YouTube'', key = ''abc123''\<rparr>]))] = Some st'
               \<and> selectedMovie st' = Some \<lparr>sel_movie = Some m, trailerUrl = Str (youtubeUrl @ ''abc123'')\<rparr>"
  using assms
  by (simp add: resume_def videos_settle_def trailer_of_def set_trailer_def is_trailer_def)

lemma scenario_trailer_42_witness:
  "\<lparr>movie_id = 42, title = ''Dune'', poster_path = None, release_date = [], overview = []\<rparr>
     \<in> set (movies (app_init\<lparr>movies := [\<lparr>movie_id = 42, title = ''Dune'', poster_path = None, release_date = [], overview = []\<rparr>]\<rparr>)) \<and>
   movie_id \<lparr>movie_id = 42, title = ''Dune'', poster_path = None, release_date = [], overview = ([] :: string)\<rparr> = 42 \<and>
   (\<exists>st'. run (app_init\<lparr>movies := [\<lparr>movie_id = 42, title = ''Dune'', poster_path = None, release_date = [], overview = []\<rparr>]\<rparr>)
             [MovieClick \<lparr>movie_id = 42, title = ''Dune'', poster_path = None, release_date = [], overview = []\<rparr>,
              SettleVideos 0 (Resolved 200 (Some [\<lparr>video_type = ''Trailer'', site = ''YouTube'', key = ''abc123''\<rparr>]))] = Some st'
          \<and> selectedMovie st' = Some \<lparr>sel_movie = Some \<lparr>movie_id = 42, title = ''Dune'', poster_path = None, release_date = [], overview = []\<rparr>,
                                     trailerUrl = Str (youtubeUrl @ ''abc123'')\<rparr>)"
  using scenario_trailer_42 [of "\<lparr>movie_id = 42, title = ''Dune'', poster_path = None, release_date = [], overview = []\<rparr>"
      "app_init\<lparr>movies := [\<lparr>movie_id = 42, title = ''Dune'', poster_path = None, release_date = [], overview = []\<rparr>]\<rparr>"]
  by (simp add: app_init_def)

text \<open>
  C39: in every reachable state, the only address the trailer player can embed
  is a YouTube watch address: \<open>youtubeUrl\<close> followed by a video key.
\<close>

theorem reachable_iframe_youtube_only:
  assumes "reachable st" and "detail (render st) = Some d" and "dialog_iframe d = Some u"
  shows "\<exists>k. u = youtubeUrl @ k"
proof -
  from assms(2) obtain s where s: "selectedMovie st = Some s" and d: "d = detail_dialog s"
    by (auto simp: render_def)
  from assms(3) d have "trailerUrl s = Str u"
    by (cases "trailerUrl s") (auto simp: detail_dialog_def split: if_splits)
  with reachable_trailer_url_ok [OF assms(1)] s
  have "take (length youtubeUrl) u = youtubeUrl" by (simp add: trailer_url_ok_def)
  then have "u = youtubeUrl @ drop (length youtubeUrl) u"
    by (metis append_take_drop_id)
  then show ?thesis by blast
qed

lemma reachable_iframe_youtube_only_witness:
  "reachable (videos_settle (Resolved 200 (Some [\<lparr>video_type = ''Trailer'', site = ''YouTube'', key = ''k1''\<rparr>]))
     (resume 0 (handleMovieClick \<lparr>movie_id = 9, title = ''T'', poster_path = None, release_date = [], overview = []\<rparr>
       (fetchMovies_settle (Resolved 200 (Some [\<lparr>movie_id = 9, title = ''T'', poster_path = None, release_date = [], overview = []\<rparr>]))
          (resume 0 app_start))))) \<and>
   detail (render (videos_settle (Resolved 200 (Some [\<lparr>video_type = ''Trailer'', site = ''YouTube'', key = ''k1''\<rparr>]))
     (resume 0 (handleMovieClick \<lparr>movie_id = 9, title = ''T'', poster_path = None, release_date = [], overview = []\<rparr>
       (fetchMovies_settle (Resolved 200 (Some [\<lparr>movie_id = 9, title = ''T'', poster_path = None, release_date = [], overview = []\<rparr>]))
          (resume 0 app_start)))))) =
     Some (detail_dialog \<lparr>sel_movie = Some \<lparr>movie_id = 9, title = ''T'', poster_path = None, release_date = [], overview = []\<rparr>,
                          trailerUrl = Str (youtubeUrl @ ''k1'')\<rparr>) \<and>
   dialog_iframe (detail_dialog \<lparr>sel_movie = Some \<lparr>movie_id = 9, title = ''T'', poster_path = None, release_date = [], overview = []\<rparr>,
                          trailerUrl = Str (youtubeUrl @ ''k1'')\<rparr>) = Some (youtubeUrl @ ''k1'') \<and>
   (\<exists>k. youtubeUrl @ ''k1'' = youtubeUrl @ k)"
proof -
  define m where "m = \<lparr>movie_id = 9, title = ''T'', poster_path = None, release_date = [], overview = ([] :: string)\<rparr>"
  define vs where "vs = [\<lparr>video_type = ''Trailer'', site = ''YouTube'', key = ''k1''\<rparr>]"
  define st where "st = videos_settle (Resolved 200 (Some vs))
     (resume 0 (handleMovieClick m (fetchMovies_settle (Resolved 200 (Some [m])) (resume 0 app_start))))"
  define d where "d = detail_dialog \<lparr>sel_movie = Some m, trailerUrl = Str (youtubeUrl @ ''k1'')\<rparr>"
  have run: "run app_start [SettleMovies 0 (Resolved 200 (Some [m])), MovieClick m,
                            SettleVideos 0 (Resolved 200 (Some vs))] = Some st"
    by (simp add: st_def run_eval_simps)
  have r: "reachable st" using run_reachable [OF reachable.start run] .
  have dd: "detail (render st) = Some d"
    by (simp add: st_def d_def vs_def render_def run_eval_simps trailer_of_def set_trailer_def
                  is_trailer_def)
  have u: "dialog_iframe d = Some (youtubeUrl @ ''k1'')"
    by (simp add: d_def detail_dialog_def youtubeUrl_def)
  from reachable_iframe_youtube_only [OF r dd u] r dd u show ?thesis
    by (simp add: st_def d_def m_def vs_def)
qed

end
